theory Spec2Isabelle
  imports Complex_Main "HOL-Library.Char_ord" "HOL-Library.List_Lexorder" "HOL-Library.AList"
    "HOL-Library.Multiset" "HOL-Library.Log_Nat"
begin

section \<open>Python values\<close>

text \<open>
  Strings are byte lists (UTF-8); the order on them is the lexicographic order on bytes,
  which for UTF-8 is the order of Python's \<^verbatim>\<open>str\<close> (by code point).
  A JSON document, as \<^verbatim>\<open>json.load\<close> and \<^verbatim>\<open>request.get_json\<close> return it
  and as \<^verbatim>\<open>jsonify\<close> and \<^verbatim>\<open>json.dump\<close> take it. A \<^verbatim>\<open>dict\<close> is an
  association list (keys in insertion order); a finite \<^verbatim>\<open>float\<close> is the rational it
  denotes.
\<close>

datatype json =
    JNull
  | JBool bool
  | JInt int
  | JFloat rat
  | JStr string
  | JArr "json list"
  | JObj "(string \<times> json) list"

text \<open>The exceptions (all subclasses of \<^verbatim>\<open>Exception\<close>) with their messages.\<close>

datatype py_exn =
    AttributeError string
  | IndexError string
  | ZeroDivisionError string
  | OverflowError string
  | FileNotFoundError string
  | NotADirectoryError string
  | TypeError string
  | HTTPException string
  | LibraryError string

fun str_exn :: "py_exn \<Rightarrow> string" where
  "str_exn (AttributeError m) = m"
| "str_exn (IndexError m) = m"
| "str_exn (ZeroDivisionError m) = m"
| "str_exn (OverflowError m) = m"
| "str_exn (FileNotFoundError m) = m"
| "str_exn (NotADirectoryError m) = m"
| "str_exn (TypeError m) = m"
| "str_exn (HTTPException m) = m"
| "str_exn (LibraryError m) = m"

text \<open>Truth value of a JSON value in a condition (\<^verbatim>\<open>if not requirements\<close>).\<close>

fun truthy :: "json \<Rightarrow> bool" where
  "truthy JNull = False"
| "truthy (JBool b) = b"
| "truthy (JInt i) = (i \<noteq> 0)"
| "truthy (JFloat r) = (r \<noteq> 0)"
| "truthy (JStr s) = (s \<noteq> [])"
| "truthy (JArr xs) = (xs \<noteq> [])"
| "truthy (JObj kvs) = (kvs \<noteq> [])"

text \<open>\<^verbatim>\<open>data.get(key, default)\<close>: only a dict has the method.\<close>

fun py_get :: "json \<Rightarrow> string \<Rightarrow> json \<Rightarrow> py_exn + json" where
  "py_get (JObj kvs) key dflt = Inr (case map_of kvs key of None \<Rightarrow> dflt | Some v \<Rightarrow> v)"
| "py_get _ key dflt = Inl (AttributeError ''object has no attribute get'')"

text \<open>\<^verbatim>\<open>xs[i]\<close> for a non-negative index.\<close>

definition py_index :: "'a list \<Rightarrow> nat \<Rightarrow> py_exn + 'a" where
  "py_index xs i = (if i < length xs then Inr (xs ! i) else Inl (IndexError ''list index out of range''))"

text \<open>
  \<^verbatim>\<open>s.lower()\<close> on the ASCII letters. The other bytes are kept: Python maps some
  characters outside ASCII too, but no such character becomes a letter of an allowed
  extension, so membership in \<^verbatim>\<open>ALLOWED_EXTENSIONS\<close> is the same.
\<close>

definition lower_char :: "char \<Rightarrow> char" where
  "lower_char c = (if CHR ''A'' \<le> c \<and> c \<le> CHR ''Z'' then char_of (of_char c + (32::nat)) else c)"

definition lower :: "string \<Rightarrow> string" where
  "lower s = map lower_char s"

text \<open>\<^verbatim>\<open>s.rsplit(sep, 1)\<close>: one split, at the last occurrence of the separator.\<close>

definition rsplit1 :: "char \<Rightarrow> string \<Rightarrow> string list" where
  "rsplit1 sep s =
     (if sep \<in> set s
      then [rev (tl (dropWhile (\<lambda>c. c \<noteq> sep) (rev s))), rev (takeWhile (\<lambda>c. c \<noteq> sep) (rev s))]
      else [s])"

text \<open>\<^verbatim>\<open>s.endswith(suffix)\<close>.\<close>

definition endswith :: "string \<Rightarrow> string \<Rightarrow> bool" where
  "endswith s suf = (length suf \<le> length s \<and> drop (length s - length suf) s = suf)"

section \<open>Floating-point numbers\<close>

text \<open>
  A \<^verbatim>\<open>float\<close> is an IEEE 754 double; a finite double is the rational it denotes
  (signed zeros, infinities and NaN are not represented). \<open>to_double\<close> rounds a
  rational to the nearest double, ties to the even significand: 53 significant bits,
  and below the normal range a spacing of \<open>2\<^sup>-\<^sup>1\<^sup>0\<^sup>7\<^sup>4\<close>.
\<close>

definition round_half_even :: "rat \<Rightarrow> int" where
  "round_half_even x =
     (let f = \<lfloor>x\<rfloor>; r = x - of_int f
      in if r < 1 / 2 then f else if 1 / 2 < r then f + 1 else if even f then f else f + 1)"

definition pow2 :: "int \<Rightarrow> rat" where
  "pow2 e = (if 0 \<le> e then 2 ^ nat e else 1 / 2 ^ nat (- e))"

text \<open>For \<open>x > 0\<close>, the \<open>e\<close> with \<open>2\<^sup>e \<le> x < 2\<^sup>e\<^sup>+\<^sup>1\<close>.\<close>

definition floor_log2 :: "rat \<Rightarrow> int" where
  "floor_log2 x =
     (case quotient_of x of (a, b) \<Rightarrow>
        let k = bitlen a - bitlen b in if pow2 k \<le> x then k else k - 1)"

definition to_double :: "rat \<Rightarrow> rat" where
  "to_double x =
     (if x = 0 then 0
      else let e = max (floor_log2 \<bar>x\<bar> - 52) (- 1074)
           in sgn x * of_int (round_half_even (\<bar>x\<bar> / pow2 e)) * pow2 e)"

text \<open>
  \<^verbatim>\<open>a / b\<close> on integers: the quotient, correctly rounded to a double; it raises for
  a zero divisor and for a quotient beyond the largest double.
\<close>

definition py_true_div :: "int \<Rightarrow> int \<Rightarrow> py_exn + rat" where
  "py_true_div a b =
     (if b = 0 then Inl (ZeroDivisionError ''division by zero'')
      else let q = to_double (of_int a / of_int b)
           in if 2 ^ 1024 \<le> \<bar>q\<bar>
              then Inl (OverflowError ''integer division result too large for a float'')
              else Inr q)"

text \<open>
  \<^verbatim>\<open>round(x, ndigits)\<close> on a double, for \<open>ndigits \<ge> 0\<close>: the exact value of \<open>x\<close> is rounded
  to the nearest multiple of \<open>10\<^sup>-\<^sup>n\<close>, ties to the even multiple, and the double nearest
  to that decimal is returned.
\<close>

definition py_round :: "rat \<Rightarrow> nat \<Rightarrow> rat" where
  "py_round x ndigits = to_double (of_int (round_half_even (x * 10 ^ ndigits)) / 10 ^ ndigits)"

section \<open>Configuration\<close>

definition MAX_CONTENT_LENGTH :: nat where
  "MAX_CONTENT_LENGTH = 16 * 1024 * 1024"

definition UPLOAD_FOLDER :: string where
  "UPLOAD_FOLDER = ''uploads''"

definition OUTPUT_FOLDER :: string where
  "OUTPUT_FOLDER = ''outputs''"

definition ALLOWED_EXTENSIONS :: "string set" where
  "ALLOWED_EXTENSIONS = {''png'', ''jpg'', ''jpeg'', ''gif'', ''bmp''}"

section \<open>Upload validation\<close>

definition allowed_file :: "string \<Rightarrow> py_exn + bool" where
  "allowed_file filename =
     (if CHR ''.'' \<in> set filename
      then (case py_index (rsplit1 (CHR ''.'') filename) 1 of
              Inl e \<Rightarrow> Inl e
            | Inr ext \<Rightarrow> Inr (lower ext \<in> ALLOWED_EXTENSIONS))
      else Inr False)"

text \<open>
  The specification's wording of the same test: the file name has a dot, and the text
  after its last dot, in lower case, is an allowed extension.
\<close>

definition spec_accepts :: "string \<Rightarrow> bool" where
  "spec_accepts filename =
     (\<exists>stem ext. filename = stem @ CHR ''.'' # ext \<and> CHR ''.'' \<notin> set ext
        \<and> lower ext \<in> ALLOWED_EXTENSIONS)"

section \<open>Paths, files and the clock\<close>

text \<open>\<^verbatim>\<open>os.path.join(a, b)\<close> on POSIX.\<close>

definition path_join :: "string \<Rightarrow> string \<Rightarrow> string" where
  "path_join a b =
     (if take 1 b = ''/'' then b
      else if a = [] \<or> last a = CHR ''/'' then a @ b
      else a @ ''/'' @ b)"

text \<open>
  The state outside the process: the directories that exist, the regular files with
  their contents (in the order \<^verbatim>\<open>os.listdir\<close> reports them), the calls made to
  the external model so far, and how often the clock has been read.
\<close>

record world =
  dirs :: "string list"
  files :: "(string \<times> string) list"
  calls :: "(string \<times> string option) list"
  ticks :: nat

text \<open>The name of \<open>p\<close> inside the directory \<open>d\<close>, when \<open>p\<close> is directly inside it.\<close>

definition child_name :: "string \<Rightarrow> string \<Rightarrow> string option" where
  "child_name d p =
     (let n = length d; name = drop (Suc n) p
      in if take n p = d \<and> take 1 (drop n p) = ''/'' \<and> name \<noteq> [] \<and> CHR ''/'' \<notin> set name
         then Some name else None)"

definition path_exists :: "world \<Rightarrow> string \<Rightarrow> bool" where
  "path_exists w p = (p \<in> set (dirs w) \<or> p \<in> fst ` set (files w))"

text \<open>\<^verbatim>\<open>os.listdir(d)\<close>: the names directly inside a directory; it raises on any other path.\<close>

definition listdir :: "world \<Rightarrow> string \<Rightarrow> py_exn + string list" where
  "listdir w d =
     (if d \<in> set (dirs w)
      then Inr (List.map_filter (\<lambda>pc. child_name d (fst pc)) (files w))
      else Inl (NotADirectoryError ''Not a directory''))"

text \<open>
  \<^verbatim>\<open>open(path, 'w')\<close> followed by writing \<open>data\<close>: the file is created, or an
  existing file is replaced; it fails when the directory of the path does not exist.
\<close>

definition parent_exists :: "string list \<Rightarrow> string \<Rightarrow> bool" where
  "parent_exists ds path = list_ex (\<lambda>d. child_name d path \<noteq> None) ds"

definition open_write :: "string \<Rightarrow> string \<Rightarrow> world \<Rightarrow> py_exn + world" where
  "open_write path data w =
     (if parent_exists (dirs w) path
      then Inr (w\<lparr>files := AList.update path data (files w)\<rparr>)
      else Inl (FileNotFoundError ''No such file or directory''))"

definition open_read :: "string \<Rightarrow> world \<Rightarrow> py_exn + string" where
  "open_read path w =
     (case map_of (files w) path of
        None \<Rightarrow> Inl (FileNotFoundError ''No such file or directory'')
      | Some data \<Rightarrow> Inr data)"

text \<open>
  A \<^verbatim>\<open>datetime\<close> and \<^verbatim>\<open>strftime("%Y%m%d_%H%M%S")\<close>: four digits of the year,
  two of each other field (the fields of a \<^verbatim>\<open>datetime\<close> are in range, a year
  of a running system has four digits).
\<close>

record datetime =
  dt_year :: nat
  dt_month :: nat
  dt_day :: nat
  dt_hour :: nat
  dt_minute :: nat
  dt_second :: nat

definition digit_char :: "nat \<Rightarrow> char" where
  "digit_char n = char_of (48 + n mod 10)"

definition digits2 :: "nat \<Rightarrow> string" where
  "digits2 n = [digit_char (n div 10), digit_char n]"

definition digits4 :: "nat \<Rightarrow> string" where
  "digits4 n = [digit_char (n div 1000), digit_char (n div 100), digit_char (n div 10), digit_char n]"

definition strftime :: "datetime \<Rightarrow> string" where
  "strftime t =
     digits4 (dt_year t) @ digits2 (dt_month t) @ digits2 (dt_day t) @ ''_''
     @ digits2 (dt_hour t) @ digits2 (dt_minute t) @ digits2 (dt_second t)"

section \<open>Libraries and external services\<close>

text \<open>
  What the handlers call and the repository does not define: Werkzeug's
  \<^verbatim>\<open>secure_filename\<close>, the clock (\<open>now i\<close> is the \<open>i\<close>-th reading of
  \<^verbatim>\<open>datetime.now()\<close>), Pillow's decoder (the \<^verbatim>\<open>size\<close> of the image in a file's
  bytes), the generative model (the
  \<^verbatim>\<open>text\<close> of its response to a prompt and an optional image), the formatting of a
  value that is no string inside an f-string, \<^verbatim>\<open>json.dumps(indent=2)\<close> and
  \<^verbatim>\<open>json.loads\<close> (\<open>None\<close> when it raises), \<^verbatim>\<open>list.sort\<close> on keys that are
  not all strings, Flask's \<^verbatim>\<open>send_from_directory\<close> on the files of the system,
  \<^verbatim>\<open>isoformat\<close>, and the credential read at start-up.
\<close>

type_synonym history_entry = "string \<times> json \<times> string"

datatype response = JsonResponse nat json | FileResponse string

record env =
  secure_filename :: "string \<Rightarrow> string"
  now :: "nat \<Rightarrow> datetime"
  image_size :: "string \<Rightarrow> py_exn + int \<times> int"
  generate_content :: "string \<Rightarrow> string option \<Rightarrow> py_exn + string"
  format_value :: "json \<Rightarrow> string"
  json_dumps :: "json \<Rightarrow> string"
  json_loads :: "string \<Rightarrow> json option"
  sort_other :: "history_entry list \<Rightarrow> py_exn + history_entry list"
  send_from_directory :: "(string \<times> string) list \<Rightarrow> string \<Rightarrow> string \<Rightarrow> py_exn + response"
  isoformat :: "datetime \<Rightarrow> string"
  GEMINI_API_KEY :: string

definition datetime_now :: "env \<Rightarrow> world \<Rightarrow> datetime \<times> world" where
  "datetime_now env w = (now env (ticks w), w\<lparr>ticks := Suc (ticks w)\<rparr>)"

text \<open>A call of the model is recorded in the world.\<close>

definition model_generate :: "env \<Rightarrow> string \<Rightarrow> string option \<Rightarrow> world \<Rightarrow> (py_exn + string) \<times> world" where
  "model_generate env prompt img w =
     (generate_content env prompt img, w\<lparr>calls := calls w @ [(prompt, img)]\<rparr>)"

subsection \<open>Serving a file from a directory\<close>

text \<open>\<^verbatim>\<open>str.split(sep)\<close> and \<^verbatim>\<open>sep.join(parts)\<close> for a separator of one character.\<close>

fun split_on :: "char \<Rightarrow> string \<Rightarrow> string list" where
  "split_on sep [] = [[]]"
| "split_on sep (c # cs) =
     (if c = sep then [] # split_on sep cs
      else (case split_on sep cs of [] \<Rightarrow> [[c]] | p # ps \<Rightarrow> (c # p) # ps))"

fun join_on :: "char \<Rightarrow> string list \<Rightarrow> string" where
  "join_on sep [] = []"
| "join_on sep [p] = p"
| "join_on sep (p # q # ps) = p @ sep # join_on sep (q # ps)"

text \<open>
  \<^verbatim>\<open>posixpath.normpath\<close>: empty and \<^verbatim>\<open>.\<close> components are dropped, a \<^verbatim>\<open>..\<close>
  removes the component before it, and is kept only at the start of a relative path.
\<close>

fun norm_comps :: "bool \<Rightarrow> string list \<Rightarrow> string list \<Rightarrow> string list" where
  "norm_comps initial_slashes new_comps [] = new_comps"
| "norm_comps initial_slashes new_comps (name # comps) =
     (if name = [] \<or> name = ''.'' then norm_comps initial_slashes new_comps comps
      else if name \<noteq> ''..'' \<or> (\<not> initial_slashes \<and> new_comps = [])
              \<or> (new_comps \<noteq> [] \<and> last new_comps = ''..'')
           then norm_comps initial_slashes (new_comps @ [name]) comps
      else if new_comps \<noteq> [] then norm_comps initial_slashes (butlast new_comps) comps
      else norm_comps initial_slashes new_comps comps)"

definition normpath :: "string \<Rightarrow> string" where
  "normpath path =
     (if path = [] then ''.''
      else let initial_slashes =
                 (if take 1 path \<noteq> ''/'' then 0
                  else if take 2 path = ''//'' \<and> take 3 path \<noteq> ''///'' then 2 else 1 :: nat);
               comps = norm_comps (0 < initial_slashes) [] (split_on CHR ''/'' path);
               p = replicate initial_slashes CHR ''/'' @ join_on CHR ''/'' comps
           in if p = [] then ''.'' else p)"

text \<open>
  Werkzeug's \<^verbatim>\<open>safe_join(directory, pathname)\<close> on POSIX: the normalised name is
  refused when it is absolute or leaves the directory.
\<close>

definition safe_join :: "string \<Rightarrow> string \<Rightarrow> string option" where
  "safe_join directory pathname =
     (let directory = (if directory = [] then ''.'' else directory);
          filename = (if pathname \<noteq> [] then normpath pathname else pathname)
      in if take 1 filename = ''/'' \<or> filename = ''..'' \<or> take 3 filename = ''../''
         then None
         else Some (path_join directory filename))"

text \<open>
  The world names a file relative to the working directory of the process, as
  \<^verbatim>\<open>open\<close> and \<^verbatim>\<open>os.listdir\<close> are given it; \<open>relative_to cwd p\<close> is the name of
  the absolute path \<open>p\<close> there (a path outside the working directory keeps its absolute
  name).
\<close>

definition relative_to :: "string \<Rightarrow> string \<Rightarrow> string" where
  "relative_to cwd p =
     (let n = Suc (length cwd) in if take n p = cwd @ ''/'' then drop n p else p)"

definition NotFound :: py_exn where
  "NotFound = HTTPException (''404 Not Found: The requested URL was not found on the server. ''
       @ ''If you entered the URL manually please check your spelling and try again.'')"

text \<open>
  Flask's \<^verbatim>\<open>send_from_directory(directory, path)\<close> in an application whose
  \<^verbatim>\<open>root_path\<close> (the directory of the module that creates the application) is
  \<open>root_path\<close>, in a process whose working directory is \<open>cwd\<close>: the name is joined
  safely to the directory, the result is resolved against the root path of the
  application, not against the working directory, and the regular file there is sent.
\<close>

definition flask_send_from_directory ::
    "string \<Rightarrow> string \<Rightarrow> (string \<times> string) list \<Rightarrow> string \<Rightarrow> string \<Rightarrow> py_exn + response" where
  "flask_send_from_directory root_path cwd fs directory path =
     (case safe_join directory path of
        None \<Rightarrow> Inl NotFound
      | Some path_str \<Rightarrow>
          (case map_of fs (relative_to cwd (path_join root_path path_str)) of
             None \<Rightarrow> Inl NotFound
           | Some content \<Rightarrow> Inr (FileResponse content)))"

section \<open>Requests and responses\<close>

record file_storage =
  fs_filename :: string
  fs_stream :: string

text \<open>
  A request: what reading \<^verbatim>\<open>request.files\<close> and \<^verbatim>\<open>request.get_json()\<close> give
  (either may raise).
\<close>

record request =
  req_files :: "py_exn + (string \<times> file_storage) list"
  req_json :: "py_exn + json"

text \<open>
  Werkzeug enforces \<^verbatim>\<open>MAX_CONTENT_LENGTH\<close> when the body of the request is read: for
  a request that announces a longer body, reading \<^verbatim>\<open>request.files\<close> or
  \<^verbatim>\<open>request.get_json()\<close> raises \<^verbatim>\<open>RequestEntityTooLarge\<close>. \<open>received n req\<close>
  is the request the handler sees when the body of \<open>req\<close> has \<open>n\<close> bytes.
\<close>

definition RequestEntityTooLarge :: py_exn where
  "RequestEntityTooLarge = HTTPException
     ''413 Request Entity Too Large: The data value transmitted exceeds the capacity limit.''"

definition received :: "nat \<Rightarrow> request \<Rightarrow> request" where
  "received content_length req =
     (if MAX_CONTENT_LENGTH < content_length
      then req\<lparr>req_files := Inl RequestEntityTooLarge, req_json := Inl RequestEntityTooLarge\<rparr>
      else req)"

definition jsonify :: "json \<Rightarrow> response" where
  "jsonify body = JsonResponse 200 body"

definition error_body :: "string \<Rightarrow> json" where
  "error_body msg = JObj [(''error'', JStr msg), (''success'', JBool False)]"

definition py_lines :: "string list \<Rightarrow> string" where
  "py_lines ls = concat (map (\<lambda>l. l @ [CHR 0x0A]) ls)"

definition analysis_prompt :: string where
  "analysis_prompt = CHR 0x0A # py_lines
     [''        You are an expert architect and floor plan analyzer. Analyze this floor plan image and provide:'',
      [],
      ''        1. **DIMENSIONS ANALYSIS:**'',
      ''           - Estimate the total floor area in square feet'',
      ''           - Identify the approximate length and width of the property'',
      ''           - Calculate room dimensions where visible'',
      [],
      ''        2. **SPACE IDENTIFICATION:**'',
      ''           - List all identifiable rooms and spaces'',
      ''           - Estimate the size of each room in square feet'',
      ''           - Identify doors, windows, and openings'',
      [],
      ''        3. **OPTIMAL LAYOUT RECOMMENDATIONS:**'',
      ''           - Suggest improvements for space utilization'',
      ''           - Recommend furniture placement for each room'',
      ''           - Identify potential traffic flow issues'',
      ''           - Suggest lighting and ventilation considerations'',
      [],
      ''        4. **MEASUREMENTS & SPECIFICATIONS:**'',
      ''           - Provide specific measurements in feet and inches'',
      ''           - Calculate total usable space vs. circulation space'',
      ''           - Identify any structural elements (walls, columns, etc.)'',
      [],
      ''        5. **DESIGN SUGGESTIONS:**'',
      ''           - Recommend color schemes for different areas'',
      ''           - Suggest materials for flooring in different rooms'',
      ''           - Provide storage solutions for each space'',
      [],
      ''        Please format your response in clear sections with bullet points and specific measurements where possible.'']
     @ ''        ''"

definition py_format :: "env \<Rightarrow> json \<Rightarrow> string" where
  "py_format env v = (case v of JStr s \<Rightarrow> s | _ \<Rightarrow> format_value env v)"

definition plan_prompt :: "env \<Rightarrow> json \<Rightarrow> string" where
  "plan_prompt env requirements = CHR 0x0A # py_lines
     [''        Based on these requirements: '' @ [CHR 0x22] @ py_format env requirements @ [CHR 0x22],
      ''        '',
      ''        Generate a detailed floor plan with:'',
      ''        1. Room layout and dimensions'',
      ''        2. Door and window placements'',
      ''        3. Furniture arrangement suggestions'',
      ''        4. Traffic flow optimization'',
      ''        5. Lighting and electrical recommendations'',
      ''        6. Plumbing considerations'',
      ''        7. Storage solutions'',
      ''        '',
      ''        Provide specific measurements and practical implementation details.'']
     @ ''        ''"

section \<open>The analyze handler\<close>

definition process_image_dimensions :: "int \<times> int \<Rightarrow> py_exn + json" where
  "process_image_dimensions sz =
     (case sz of (width, height) \<Rightarrow>
        (case py_true_div width height of
           Inl e \<Rightarrow> Inl e
         | Inr aspect_ratio \<Rightarrow>
             Inr (JObj [(''width'', JInt width), (''height'', JInt height),
                        (''aspect_ratio'', JFloat (py_round aspect_ratio 2))])))"

text \<open>\<^verbatim>\<open>Image.open(filepath)\<close>: the file is read and decoded.\<close>

definition image_open :: "env \<Rightarrow> string \<Rightarrow> world \<Rightarrow> py_exn + (string \<times> int \<times> int)" where
  "image_open env filepath w =
     (case open_read filepath w of
        Inl e \<Rightarrow> Inl e
      | Inr bytes \<Rightarrow> (case image_size env bytes of Inl e \<Rightarrow> Inl e | Inr sz \<Rightarrow> Inr (bytes, sz)))"

definition analysis_data :: "string \<Rightarrow> string \<Rightarrow> json \<Rightarrow> string \<Rightarrow> json" where
  "analysis_data timestamp filename image_info text =
     JObj [(''timestamp'', JStr timestamp), (''filename'', JStr filename),
           (''image_info'', image_info), (''analysis'', JStr text), (''success'', JBool True)]"

text \<open>
  The body of the \<^verbatim>\<open>try\<close> block, from the saving of the upload on (the file has
  passed the checks): \<open>Inl\<close> is an exception raised, \<open>Inr\<close> a response returned.
\<close>

definition analyze_accepted :: "env \<Rightarrow> file_storage \<Rightarrow> world \<Rightarrow> (py_exn + response) \<times> world" where
  "analyze_accepted env file w =
     (let filename0 = secure_filename env (fs_filename file);
          (t, w1) = datetime_now env w;
          timestamp = strftime t;
          filename = timestamp @ ''_'' @ filename0;
          filepath = path_join UPLOAD_FOLDER filename
      in case open_write filepath (fs_stream file) w1 of
           Inl e \<Rightarrow> (Inl e, w1)
         | Inr w2 \<Rightarrow>
            (case image_open env filepath w2 of
               Inl e \<Rightarrow> (Inl e, w2)
             | Inr (img, sz) \<Rightarrow>
                (case process_image_dimensions sz of
                   Inl e \<Rightarrow> (Inl e, w2)
                 | Inr image_info \<Rightarrow>
                    (case model_generate env analysis_prompt (Some img) w2 of
                       (Inl e, w3) \<Rightarrow> (Inl e, w3)
                     | (Inr text, w3) \<Rightarrow>
                        if text = [] then (Inr (jsonify (error_body ''No response from AI model'')), w3)
                        else
                          let data = analysis_data timestamp filename image_info text;
                              analysis_filename = ''analysis_'' @ timestamp @ ''.json'';
                              analysis_path = path_join OUTPUT_FOLDER analysis_filename
                          in (case open_write analysis_path (json_dumps env data) w3 of
                                Inl e \<Rightarrow> (Inl e, w3)
                              | Inr w4 \<Rightarrow> (Inr (jsonify data), w4))))))"

definition analyze_image_try :: "env \<Rightarrow> request \<Rightarrow> world \<Rightarrow> (py_exn + response) \<times> world" where
  "analyze_image_try env req w =
     (case req_files req of
        Inl e \<Rightarrow> (Inl e, w)
      | Inr fs \<Rightarrow>
         (case map_of fs ''image'' of
            None \<Rightarrow> (Inr (jsonify (error_body ''No image uploaded'')), w)
          | Some file \<Rightarrow>
             if fs_filename file = [] then (Inr (jsonify (error_body ''No file selected'')), w)
             else (case allowed_file (fs_filename file) of
                     Inl e \<Rightarrow> (Inl e, w)
                   | Inr ok \<Rightarrow>
                      if \<not> ok
                      then (Inr (jsonify (error_body ''Invalid file type. Please upload an image.'')), w)
                      else analyze_accepted env file w)))"

definition analyze_image :: "env \<Rightarrow> request \<Rightarrow> world \<Rightarrow> response \<times> world" where
  "analyze_image env req w =
     (case analyze_image_try env req w of
        (Inl e, w') \<Rightarrow> (jsonify (error_body (''Error processing image: '' @ str_exn e)), w')
      | (Inr r, w') \<Rightarrow> (r, w'))"

section \<open>The plan handler\<close>

definition plan_data :: "string \<Rightarrow> json \<Rightarrow> string \<Rightarrow> json" where
  "plan_data timestamp requirements text =
     JObj [(''timestamp'', JStr timestamp), (''requirements'', requirements),
           (''generated_plan'', JStr text), (''success'', JBool True)]"

definition generate_plan_try :: "env \<Rightarrow> request \<Rightarrow> world \<Rightarrow> (py_exn + response) \<times> world" where
  "generate_plan_try env req w =
     (case req_json req of
        Inl e \<Rightarrow> (Inl e, w)
      | Inr data \<Rightarrow>
         (case py_get data ''requirements'' (JStr []) of
            Inl e \<Rightarrow> (Inl e, w)
          | Inr requirements \<Rightarrow>
             if \<not> truthy requirements
             then (Inr (jsonify (error_body ''No requirements provided'')), w)
             else
               (case model_generate env (plan_prompt env requirements) None w of
                  (Inl e, w1) \<Rightarrow> (Inl e, w1)
                | (Inr text, w1) \<Rightarrow>
                   if text = [] then (Inr (jsonify (error_body ''No response from AI model'')), w1)
                   else
                     let (t, w2) = datetime_now env w1;
                         timestamp = strftime t;
                         data = plan_data timestamp requirements text;
                         plan_filename = ''plan_'' @ timestamp @ ''.json'';
                         plan_path = path_join OUTPUT_FOLDER plan_filename
                     in (case open_write plan_path (json_dumps env data) w2 of
                           Inl e \<Rightarrow> (Inl e, w2)
                         | Inr w3 \<Rightarrow> (Inr (jsonify data), w3)))))"

definition generate_plan :: "env \<Rightarrow> request \<Rightarrow> world \<Rightarrow> response \<times> world" where
  "generate_plan env req w =
     (case generate_plan_try env req w of
        (Inl e, w') \<Rightarrow> (jsonify (error_body (''Error generating plan: '' @ str_exn e)), w')
      | (Inr r, w') \<Rightarrow> (r, w'))"

section \<open>The other handlers\<close>


text \<open>
  One file of the listing: it is read and parsed, and the entry is built; any failure
  (the file cannot be read, it is no JSON, the document is no dict and has no
  \<^verbatim>\<open>get\<close>) is swallowed by the bare \<^verbatim>\<open>except\<close>, and the file is skipped.
\<close>

definition has_key :: "json \<Rightarrow> string \<Rightarrow> bool" where
  "has_key data key = (case data of JObj kvs \<Rightarrow> key \<in> fst ` set kvs | _ \<Rightarrow> False)"

definition read_entry :: "env \<Rightarrow> world \<Rightarrow> string \<Rightarrow> history_entry option" where
  "read_entry env w filename =
     (let filepath = path_join OUTPUT_FOLDER filename
      in case open_read filepath w of
           Inl e \<Rightarrow> None
         | Inr content \<Rightarrow>
            (case json_loads env content of
               None \<Rightarrow> None
             | Some data \<Rightarrow>
                (case py_get data ''timestamp'' (JStr []) of
                   Inl e \<Rightarrow> None
                 | Inr ts \<Rightarrow>
                     Some (filename, ts, if has_key data ''analysis'' then ''analysis'' else ''plan''))))"

fun history_loop :: "env \<Rightarrow> world \<Rightarrow> string list \<Rightarrow> history_entry list \<Rightarrow> history_entry list" where
  "history_loop env w [] acc = acc"
| "history_loop env w (filename # rest) acc =
     (if endswith filename ''.json''
      then (case read_entry env w filename of
              None \<Rightarrow> history_loop env w rest acc
            | Some e \<Rightarrow> history_loop env w rest (acc @ [e]))
      else history_loop env w rest acc)"

text \<open>
  \<^verbatim>\<open>files.sort(key=lambda x: x['timestamp'], reverse=True)\<close>: a stable sort of the
  reversed list, reversed again. Keys that are strings are compared as strings; what
  the sort does on other keys (it may raise \<^verbatim>\<open>TypeError\<close>) is the library's.
\<close>

definition is_JStr :: "json \<Rightarrow> bool" where
  "is_JStr v = (case v of JStr s \<Rightarrow> True | _ \<Rightarrow> False)"

definition timestamp_key :: "history_entry \<Rightarrow> string" where
  "timestamp_key e = (case fst (snd e) of JStr s \<Rightarrow> s | _ \<Rightarrow> [])"

definition sort_newest_first :: "env \<Rightarrow> history_entry list \<Rightarrow> py_exn + history_entry list" where
  "sort_newest_first env entries =
     (if list_all (\<lambda>e. is_JStr (fst (snd e))) entries
      then Inr (rev (sort_key timestamp_key (rev entries)))
      else sort_other env entries)"

definition entry_json :: "history_entry \<Rightarrow> json" where
  "entry_json e =
     (case e of (filename, ts, kind) \<Rightarrow>
        JObj [(''filename'', JStr filename), (''timestamp'', ts), (''type'', JStr kind)])"

definition scan_outputs :: "env \<Rightarrow> world \<Rightarrow> py_exn + history_entry list" where
  "scan_outputs env w =
     (if path_exists w OUTPUT_FOLDER
      then (case listdir w OUTPUT_FOLDER of
              Inl e \<Rightarrow> Inl e
            | Inr names \<Rightarrow> Inr (history_loop env w names []))
      else Inr [])"

definition get_history :: "env \<Rightarrow> world \<Rightarrow> response \<times> world" where
  "get_history env w =
     (case scan_outputs env w of
        Inl e \<Rightarrow> (jsonify (error_body (''Error fetching history: '' @ str_exn e)), w)
      | Inr entries \<Rightarrow>
         (case sort_newest_first env entries of
            Inl e \<Rightarrow> (jsonify (error_body (''Error fetching history: '' @ str_exn e)), w)
          | Inr sorted_files \<Rightarrow>
              (jsonify (JObj [(''files'', JArr (map entry_json sorted_files)), (''success'', JBool True)]), w)))"



subsection \<open>Error handlers\<close>

definition too_large :: response where
  "too_large = JsonResponse 413 (error_body ''File too large. Maximum size is 16MB.'')"

definition not_found :: response where
  "not_found = JsonResponse 404 (error_body ''Endpoint not found'')"

definition internal_error :: response where
  "internal_error = JsonResponse 500 (error_body ''Internal server error'')"

section \<open>Shapes of responses\<close>

text \<open>
  The error envelope \<^verbatim>\<open>{error: <message>, success: false}\<close> with status 200, and
  a response with status 200 whose body has \<^verbatim>\<open>success: true\<close>.
\<close>

definition is_error_envelope :: "response \<Rightarrow> bool" where
  "is_error_envelope r =
     (case r of
        JsonResponse code body \<Rightarrow>
          code = 200 \<and> (case py_get body ''error'' JNull of Inr (JStr m) \<Rightarrow> body = error_body m | _ \<Rightarrow> False)
      | FileResponse c \<Rightarrow> False)"

definition is_success_response :: "response \<Rightarrow> bool" where
  "is_success_response r =
     (case r of
        JsonResponse code body \<Rightarrow> code = 200 \<and> py_get body ''success'' JNull = Inr (JBool True)
      | FileResponse c \<Rightarrow> False)"

text \<open>
  The failures the handlers can meet, read off the request, the libraries and the world:
  the request cannot be read, the input is missing or refused, a directory to write to
  is missing, the image cannot be decoded or the quotient of its sizes cannot be
  computed (height 0, or a quotient beyond the doubles), the model raises or answers
  with no text. \<open>analyze_steps_ok\<close> and \<open>plan_steps_ok\<close> say that none of them occurs.
\<close>

definition analyze_steps_ok :: "env \<Rightarrow> request \<Rightarrow> world \<Rightarrow> bool" where
  "analyze_steps_ok env req w =
     (case req_files req of
        Inl e \<Rightarrow> False
      | Inr fs \<Rightarrow>
         (case map_of fs ''image'' of
            None \<Rightarrow> False
          | Some file \<Rightarrow>
              fs_filename file \<noteq> [] \<and> allowed_file (fs_filename file) = Inr True
            \<and> parent_exists (dirs w)
                 (path_join UPLOAD_FOLDER
                    (strftime (now env (ticks w)) @ ''_'' @ secure_filename env (fs_filename file)))
            \<and> (case image_size env (fs_stream file) of
                  Inl e \<Rightarrow> False
                | Inr (wd, ht) \<Rightarrow> (case py_true_div wd ht of Inl e \<Rightarrow> False | Inr q \<Rightarrow> True))
            \<and> (case generate_content env analysis_prompt (Some (fs_stream file)) of
                  Inl e \<Rightarrow> False | Inr text \<Rightarrow> text \<noteq> [])
            \<and> parent_exists (dirs w)
                 (path_join OUTPUT_FOLDER (''analysis_'' @ strftime (now env (ticks w)) @ ''.json''))))"

definition plan_steps_ok :: "env \<Rightarrow> request \<Rightarrow> world \<Rightarrow> bool" where
  "plan_steps_ok env req w =
     (case req_json req of
        Inl e \<Rightarrow> False
      | Inr body \<Rightarrow>
         (case py_get body ''requirements'' (JStr []) of
            Inl e \<Rightarrow> False
          | Inr requirements \<Rightarrow>
              truthy requirements
            \<and> (case generate_content env (plan_prompt env requirements) None of
                  Inl e \<Rightarrow> False | Inr text \<Rightarrow> text \<noteq> [])
            \<and> parent_exists (dirs w)
                 (path_join OUTPUT_FOLDER (''plan_'' @ strftime (now env (ticks w)) @ ''.json''))))"

text \<open>
  The records of the output directory, read off the files without the handler: a file
  directly inside the directory whose name ends in \<^verbatim>\<open>.json\<close> and whose content
  parses to a dict. The entry of a record has the file's name, the record's
  \<^verbatim>\<open>timestamp\<close> (the empty string when it has none) and the kind: analysis when
  the record has an \<^verbatim>\<open>analysis\<close> field, plan otherwise.
\<close>

definition record_of :: "env \<Rightarrow> string \<times> string \<Rightarrow> (string \<times> json) option" where
  "record_of env pc =
     (case child_name OUTPUT_FOLDER (fst pc) of
        None \<Rightarrow> None
      | Some name \<Rightarrow>
          if take (length ''.json'') (rev name) = rev ''.json''
          then (case json_loads env (snd pc) of
                  Some (JObj kvs) \<Rightarrow> Some (name, JObj kvs)
                | _ \<Rightarrow> None)
          else None)"

definition stored_records :: "env \<Rightarrow> world \<Rightarrow> (string \<times> json) list" where
  "stored_records env w = List.map_filter (record_of env) (files w)"

definition timestamp_of :: "json \<Rightarrow> json" where
  "timestamp_of d = (case d of JObj kvs \<Rightarrow> (case map_of kvs ''timestamp'' of None \<Rightarrow> JStr [] | Some v \<Rightarrow> v) | _ \<Rightarrow> JNull)"

definition is_analysis :: "string \<times> json \<Rightarrow> bool" where
  "is_analysis nd = (case snd nd of JObj kvs \<Rightarrow> map_of kvs ''analysis'' \<noteq> None | _ \<Rightarrow> False)"

definition entry_of :: "string \<times> json \<Rightarrow> history_entry" where
  "entry_of nd = (fst nd, timestamp_of (snd nd), if is_analysis nd then ''analysis'' else ''plan'')"

text \<open>
  The entry of a record as the history has to return it, and what a returned entry
  says: its \<^verbatim>\<open>timestamp\<close> and its \<^verbatim>\<open>type\<close>, read from the JSON.
\<close>

definition listed_entry :: "string \<times> json \<Rightarrow> json" where
  "listed_entry nd =
     JObj [(''filename'', JStr (fst nd)), (''timestamp'', timestamp_of (snd nd)),
           (''type'', JStr (if is_analysis nd then ''analysis'' else ''plan''))]"

definition json_timestamp :: "json \<Rightarrow> string" where
  "json_timestamp j = (case j of JObj kvs \<Rightarrow> (case map_of kvs ''timestamp'' of Some (JStr s) \<Rightarrow> s | _ \<Rightarrow> []) | _ \<Rightarrow> [])"

definition json_type :: "json \<Rightarrow> string" where
  "json_type j = (case j of JObj kvs \<Rightarrow> (case map_of kvs ''type'' of Some (JStr s) \<Rightarrow> s | _ \<Rightarrow> []) | _ \<Rightarrow> [])"

text \<open>The shape \<^verbatim>\<open>YYYYMMDD_HHMMSS\<close>.\<close>

definition is_digit :: "char \<Rightarrow> bool" where
  "is_digit c = (CHR ''0'' \<le> c \<and> c \<le> CHR ''9'')"

definition timestamp_format :: "string \<Rightarrow> bool" where
  "timestamp_format s =
     (length s = 15 \<and> list_all is_digit (take 8 s) \<and> s ! 8 = CHR ''_'' \<and> list_all is_digit (drop 9 s))"

section \<open>An example deployment\<close>

text \<open>
  A concrete environment and world on which the handlers can be run: the clock stands
  at 2024-01-15 10:30:00, every image decodes to 10 by 10 pixels, the model answers
  every prompt with the same text, and the application lies in \<^verbatim>\<open>/srv/app\<close>, where the
  process is started. In \<open>detached_env\<close> the same application is started from another
  working directory, \<^verbatim>\<open>/home/user\<close>.
\<close>

definition example_time :: datetime where
  "example_time = \<lparr>dt_year = 2024, dt_month = 1, dt_day = 15, dt_hour = 10, dt_minute = 30, dt_second = 0\<rparr>"

definition example_analysis :: json where
  "example_analysis =
     analysis_data ''20240115_103000'' ''20240115_103000_plan.png''
       (JObj [(''width'', JInt 10), (''height'', JInt 10), (''aspect_ratio'', JFloat 1)])
       ''ROOM: 100sqft''"

definition example_plan :: json where
  "example_plan = plan_data ''20240115_103000'' (JStr ''two bedrooms'') ''ROOM: 100sqft''"

definition example_older_plan :: json where
  "example_older_plan = plan_data ''20240114_090000'' (JStr ''a studio'') ''one room''"

definition example_second_plan :: json where
  "example_second_plan = plan_data ''20240115_103000'' (JStr ''a studio'') ''ROOM: 100sqft''"

definition example_dumps :: "json \<Rightarrow> string" where
  "example_dumps v =
     (if v = example_analysis then ''<analysis 20240115_103000>''
      else if v = example_plan then ''<plan 20240115_103000>''
      else if v = example_second_plan then ''<plan 20240115_103000 studio>''
      else if v = example_older_plan then ''<plan 20240114_090000>''
      else ''<other>'')"

definition example_loads :: "string \<Rightarrow> json option" where
  "example_loads s =
     (if s = ''<analysis 20240115_103000>'' then Some example_analysis
      else if s = ''<plan 20240115_103000>'' then Some example_plan
      else if s = ''<plan 20240115_103000 studio>'' then Some example_second_plan
      else if s = ''<plan 20240114_090000>'' then Some example_older_plan
      else if s = ''[1]'' then Some (JArr [JInt 1])
      else None)"

definition example_env :: env where
  "example_env =
     \<lparr>secure_filename = (\<lambda>s. s),
      now = (\<lambda>i. example_time),
      image_size = (\<lambda>bytes. Inr (10, 10)),
      generate_content = (\<lambda>prompt img. Inr ''ROOM: 100sqft''),
      format_value = (\<lambda>v. ''?''),
      json_dumps = example_dumps,
      json_loads = example_loads,
      sort_other = (\<lambda>es. Inl (TypeError ''not supported between instances'')),
      send_from_directory = flask_send_from_directory ''/srv/app'' ''/srv/app'',
      isoformat = strftime,
      GEMINI_API_KEY = ''secret''\<rparr>"

definition detached_env :: env where
  "detached_env =
     example_env\<lparr>send_from_directory := flask_send_from_directory ''/srv/app'' ''/home/user''\<rparr>"

definition example_world :: world where
  "example_world =
     \<lparr>dirs = [''uploads'', ''outputs''],
      files = [(''outputs/plan_20240114_090000.json'', ''<plan 20240114_090000>''),
               (''outputs/broken.json'', ''{''),
               (''outputs/list.json'', ''[1]''),
               (''outputs/notes.txt'', ''<plan 20240115_103000>'')],
      calls = [],
      ticks = 0\<rparr>"

definition example_upload :: request where
  "example_upload =
     \<lparr>req_files = Inr [(''image'', \<lparr>fs_filename = ''plan.png'', fs_stream = ''PNG bytes''\<rparr>)],
      req_json = Inl (HTTPException ''415 Unsupported Media Type'')\<rparr>"

definition example_plan_request :: request where
  "example_plan_request =
     \<lparr>req_files = Inr [], req_json = Inr (JObj [(''requirements'', JStr ''two bedrooms'')])\<rparr>"


definition example_history_world :: world where
  "example_history_world =
     \<lparr>dirs = [''uploads'', ''outputs''],
      files = [(''outputs/plan_20240114_090000.json'', ''<plan 20240114_090000>''),
               (''outputs/broken.json'', ''{''),
               (''outputs/list.json'', ''[1]''),
               (''outputs/notes.txt'', ''<plan 20240115_103000>''),
               (''uploads/20240115_103000_plan.png'', ''PNG bytes''),
               (''outputs/analysis_20240115_103000.json'', ''<analysis 20240115_103000>''),
               (''outputs/plan_20240115_103000.json'', ''<plan 20240115_103000>'')],
      calls = [],
      ticks = 2\<rparr>"

definition example_empty_request :: request where
  "example_empty_request = \<lparr>req_files = Inr [], req_json = Inr (JObj [(''requirements'', JStr [])])\<rparr>"

definition example_unnamed_upload :: request where
  "example_unnamed_upload =
     \<lparr>req_files = Inr [(''image'', \<lparr>fs_filename = [], fs_stream = []\<rparr>)],
      req_json = Inl (HTTPException ''415 Unsupported Media Type'')\<rparr>"

section \<open>Facts about the helper functions\<close>

lemma pow2_powi: "pow2 e = 2 powi e"
  by (simp add: pow2_def power_int_def field_simps)

lemma pow2_pos [simp]: "0 < pow2 e"
  by (simp add: pow2_powi)

lemma pow2_add: "pow2 (a + b) = pow2 a * pow2 b"
  by (simp add: pow2_powi power_int_add)

lemma pow2_mono: "a \<le> b \<Longrightarrow> pow2 a \<le> pow2 b"
  by (simp add: pow2_powi power_int_increasing)

lemma pow2_nonzero [simp]: "pow2 e \<noteq> 0"
  by (simp add: pow2_def)

lemma round_half_even_near: "\<bar>of_int (round_half_even y) - y\<bar> \<le> 1 / 2"
proof -
  have "of_int \<lfloor>y\<rfloor> \<le> y" "y < of_int \<lfloor>y\<rfloor> + 1" by linarith+
  then show ?thesis
    by (auto simp: round_half_even_def Let_def)
qed

lemma floor_log2_le:
  assumes "0 < x"
  shows "pow2 (floor_log2 x) \<le> x"
proof -
  obtain a b where q: "quotient_of x = (a, b)" by (cases "quotient_of x")
  then have b: "0 < b" and x: "x = of_int a / of_int b"
    by (simp_all add: quotient_of_denom_pos quotient_of_div)
  from assms x b have a: "0 < a" by (simp add: zero_less_divide_iff)
  let ?k = "bitlen a - bitlen b"
  show ?thesis
  proof (cases "pow2 ?k \<le> x")
    case True
    then show ?thesis using q by (simp add: floor_log2_def)
  next
    case False
    have la: "2 ^ nat (bitlen a - 1) \<le> a" using bitlen_bounds[OF a] by simp
    have lb: "b < 2 ^ nat (bitlen b)" using bitlen_bounds[OF b] by simp
    have ba: "1 \<le> bitlen a" using a bitlen_eq_zero_iff[of a] bitlen_nonneg[of a] by linarith
    have bb: "0 \<le> bitlen b" by (rule bitlen_nonneg)
    have pa: "pow2 (bitlen a - 1) \<le> of_int a"
    proof -
      have "(of_int (2 ^ nat (bitlen a - 1)) :: rat) \<le> of_int a" using la by (simp only: of_int_le_iff)
      then show ?thesis using ba by (simp add: pow2_def)
    qed
    have pb: "of_int b \<le> pow2 (bitlen b)"
    proof -
      have "(of_int b :: rat) \<le> of_int (2 ^ nat (bitlen b))" using lb by (simp only: of_int_le_iff less_imp_le)
      then show ?thesis using bb by (simp add: pow2_def)
    qed
    have "pow2 (?k - 1) * of_int b \<le> pow2 (?k - 1) * pow2 (bitlen b)"
      using pb by (simp add: mult_left_mono less_imp_le)
    also have "\<dots> = pow2 (bitlen a - 1)" by (simp add: pow2_add[symmetric])
    also have "\<dots> \<le> of_int a" by (rule pa)
    finally have "pow2 (?k - 1) \<le> of_int a / of_int b" using b by (simp add: pos_le_divide_eq)
    then show ?thesis using False q x by (simp add: floor_log2_def)
  qed
qed

lemma to_double_upper:
  assumes "0 < x"
  shows "to_double x \<le> x + (x + 1) / 2"
proof -
  let ?e = "max (floor_log2 x - 52) (- 1074)"
  let ?y = "x / pow2 ?e"
  have t: "to_double x = of_int (round_half_even ?y) * pow2 ?e"
    using assms by (simp add: to_double_def Let_def)
  have "of_int (round_half_even ?y) \<le> ?y + 1 / 2" using round_half_even_near[of ?y] by linarith
  then have "of_int (round_half_even ?y) * pow2 ?e \<le> (?y + 1 / 2) * pow2 ?e"
    by (simp add: mult_right_mono less_imp_le)
  also have "\<dots> = x + pow2 ?e / 2" by (simp add: field_simps)
  finally have u: "to_double x \<le> x + pow2 ?e / 2" using t by simp
  have "pow2 ?e \<le> x + 1"
  proof (cases "floor_log2 x - 52 \<le> - 1074")
    case True
    then have "pow2 ?e = pow2 (- 1074)" by (simp add: max_def)
    also have "\<dots> \<le> 1" by (simp add: pow2_def)
    finally show ?thesis using assms by linarith
  next
    case False
    then have "pow2 ?e = pow2 (floor_log2 x - 52)" by (simp add: max_def)
    also have "\<dots> \<le> pow2 (floor_log2 x)" by (rule pow2_mono) simp
    also have "\<dots> \<le> x" using assms by (rule floor_log2_le)
    finally show ?thesis by linarith
  qed
  then have "pow2 ?e / 2 \<le> (x + 1) / 2" by (simp add: divide_right_mono)
  then have "x + pow2 ?e / 2 \<le> x + (x + 1) / 2" by (simp only: add_left_mono)
  then show ?thesis using u by (rule order_trans[rotated])
qed

lemma to_double_in_range:
  assumes "0 < x" and "x \<le> 2 ^ 1023"
  shows "to_double x < 2 ^ 1024"
proof -
  have u: "to_double x \<le> x + (x + 1) / 2" using assms(1) by (rule to_double_upper)
  define c :: rat where "c = 2 ^ 1023"
  have c: "x \<le> c" "1 < c" "2 ^ 1024 = 2 * c" using assms(2) by (simp_all add: c_def)
  have a: "x + (x + 1) / 2 \<le> c + (c + 1) / 2"
    using c(1) by (intro add_mono divide_right_mono) simp_all
  have b: "c + (c + 1) / 2 < 2 * c" using c(2) by (simp add: field_simps)
  have "to_double x < 2 * c" using u a b by (metis order_trans order_le_less_trans)
  then show ?thesis using c(3) by simp
qed

lemma to_double_nonneg: "0 \<le> x \<Longrightarrow> 0 \<le> to_double x"
proof -
  assume a: "0 \<le> x"
  have r: "\<And>y::rat. 0 \<le> y \<Longrightarrow> 0 \<le> round_half_even y"
    by (auto simp: round_half_even_def Let_def)
  show ?thesis
  proof (cases "x = 0")
    case True then show ?thesis by (simp add: to_double_def)
  next
    case False
    with a have p: "0 < x" by simp
    let ?e = "max (floor_log2 x - 52) (- 1074)"
    have "0 \<le> round_half_even (x / pow2 ?e)" using p by (intro r) (simp add: less_imp_le)
    then have "0 \<le> of_int (round_half_even (x / pow2 ?e)) * pow2 ?e"
      by (intro mult_nonneg_nonneg) (simp_all add: less_imp_le)
    then show ?thesis using p by (simp add: to_double_def Let_def)
  qed
qed

lemma example_ratio: "py_true_div 10 10 = Inr 1" "py_round 1 2 = 1"
  by code_simp+

lemma rsplit1_last:
  assumes "sep \<in> set s"
  shows "\<exists>a b. rsplit1 sep s = [a, b] \<and> s = a @ sep # b \<and> sep \<notin> set b"
proof -
  let ?P = "\<lambda>c. c \<noteq> sep"
  let ?r = "rev s"
  have d: "dropWhile ?P ?r \<noteq> []" using assms by (simp add: dropWhile_eq_Nil_conv)
  then have h: "hd (dropWhile ?P ?r) = sep" using hd_dropWhile[of ?P ?r] by simp
  have "dropWhile ?P ?r = sep # tl (dropWhile ?P ?r)" using d h by (cases "dropWhile ?P ?r") auto
  then have "?r = takeWhile ?P ?r @ sep # tl (dropWhile ?P ?r)"
    using takeWhile_dropWhile_id[of ?P ?r] by simp
  then have "rev ?r = rev (takeWhile ?P ?r @ sep # tl (dropWhile ?P ?r))" by (rule arg_cong)
  then have s: "s = rev (tl (dropWhile ?P ?r)) @ sep # rev (takeWhile ?P ?r)" by simp
  have n: "sep \<notin> set (rev (takeWhile ?P ?r))"
    using set_takeWhileD[of sep ?P ?r] by auto
  show ?thesis using assms s n unfolding rsplit1_def by auto
qed

lemma last_separator_unique:
  "a @ sep # b = a' @ sep # b' \<Longrightarrow> sep \<notin> set b \<Longrightarrow> sep \<notin> set b' \<Longrightarrow> b = b'"
  by (induction a arbitrary: a') (auto simp: Cons_eq_append_conv append_eq_Cons_conv)

lemma allowed_file_spec: "allowed_file fn = Inr (spec_accepts fn)"
proof (cases "CHR ''.'' \<in> set fn")
  case False
  then have "\<not> spec_accepts fn" by (auto simp: spec_accepts_def)
  with False show ?thesis by (simp add: allowed_file_def)
next
  case True
  from rsplit1_last[OF True] obtain a b
    where ab: "rsplit1 (CHR ''.'') fn = [a, b]" "fn = a @ CHR ''.'' # b" "CHR ''.'' \<notin> set b"
    by blast
  have "spec_accepts fn = (lower b \<in> ALLOWED_EXTENSIONS)"
  proof
    assume "spec_accepts fn"
    then obtain st ex
      where se: "fn = st @ CHR ''.'' # ex" "CHR ''.'' \<notin> set ex" "lower ex \<in> ALLOWED_EXTENSIONS"
      unfolding spec_accepts_def by blast
    have "b = ex" using last_separator_unique[of a "CHR ''.''" b st ex] ab(2,3) se(1,2) by simp
    then show "lower b \<in> ALLOWED_EXTENSIONS" using se(3) by simp
  next
    assume "lower b \<in> ALLOWED_EXTENSIONS"
    then show "spec_accepts fn" unfolding spec_accepts_def using ab(2,3) by blast
  qed
  then show ?thesis using True ab(1) by (simp add: allowed_file_def py_index_def)
qed

lemma is_error_envelope_jsonify [simp]: "is_error_envelope (jsonify (error_body m))"
  by (simp add: is_error_envelope_def jsonify_def error_body_def)

lemma not_success_error [simp]: "\<not> is_success_response (jsonify (error_body m))"
  by (simp add: is_success_response_def jsonify_def error_body_def)

lemma success_analysis [simp]: "is_success_response (jsonify (analysis_data ts fn info text))"
  by (simp add: is_success_response_def jsonify_def analysis_data_def)

lemma success_plan [simp]: "is_success_response (jsonify (plan_data ts rq text))"
  by (simp add: is_success_response_def jsonify_def plan_data_def)

lemma digit_char_code: "of_char (digit_char n) = (48 + n mod 10 :: nat)"
  by (simp add: digit_char_def)

lemma digit_char_not_slash [simp]: "digit_char n \<noteq> CHR ''/''"
proof
  assume "digit_char n = CHR ''/''"
  then have "(of_char (digit_char n) :: nat) = of_char (CHR ''/'')" by simp
  then show False by (simp add: digit_char_code)
qed

lemma slash_not_digit_char [simp]: "CHR ''/'' \<noteq> digit_char n"
  using digit_char_not_slash[of n] by metis

lemma strftime_length [simp]: "length (strftime t) = 15"
  by (simp add: strftime_def digits2_def digits4_def)

lemma strftime_no_slash [simp]: "CHR ''/'' \<notin> set (strftime t)"
  by (simp add: strftime_def digits2_def digits4_def)

lemma strftime_Cons: "\<exists>n r. strftime t = digit_char n # r"
  unfolding strftime_def digits2_def digits4_def by auto

lemma upload_path: "path_join UPLOAD_FOLDER (strftime t @ x) = ''uploads/'' @ strftime t @ x"
proof -
  obtain n r where "strftime t = digit_char n # r" using strftime_Cons by blast
  then show ?thesis by (simp add: path_join_def UPLOAD_FOLDER_def)
qed

lemma output_path:
  "path_join OUTPUT_FOLDER (c # x) = (if c = CHR ''/'' then c # x else ''outputs/'' @ c # x)"
  by (simp add: path_join_def OUTPUT_FOLDER_def)

text \<open>
  The three ways an accepted upload ends: an exception, the empty answer of the model,
  or the record written and returned.
\<close>

lemma analyze_accepted_cases:
  assumes "analyze_accepted env file w = (res, w')"
  shows "(\<exists>e. res = Inl e) \<or> res = Inr (jsonify (error_body ''No response from AI model''))
     \<or> (\<exists>wd ht q text.
          image_size env (fs_stream file) = Inr (wd, ht) \<and> py_true_div wd ht = Inr q
        \<and> generate_content env analysis_prompt (Some (fs_stream file)) = Inr text \<and> text \<noteq> []
        \<and> parent_exists (dirs w) (''uploads/'' @ strftime (now env (ticks w)) @ ''_''
                                     @ secure_filename env (fs_filename file))
        \<and> parent_exists (dirs w) (''outputs/analysis_'' @ strftime (now env (ticks w)) @ ''.json'')
        \<and> (let ts = strftime (now env (ticks w));
                name = ts @ ''_'' @ secure_filename env (fs_filename file);
                data = analysis_data ts name
                         (JObj [(''width'', JInt wd), (''height'', JInt ht),
                                (''aspect_ratio'', JFloat (py_round q 2))]) text
            in res = Inr (jsonify data)
             \<and> w' = w\<lparr>ticks := Suc (ticks w),
                       files := AList.update (''outputs/analysis_'' @ ts @ ''.json'') (json_dumps env data)
                                  (AList.update (''uploads/'' @ name) (fs_stream file) (files w)),
                       calls := calls w @ [(analysis_prompt, Some (fs_stream file))]\<rparr>))"
  using assms
  unfolding analyze_accepted_def datetime_now_def model_generate_def image_open_def open_read_def
    open_write_def process_image_dimensions_def Let_def
  by (auto simp: upload_path output_path AList.update_conv'
           split: sum.splits option.splits prod.splits if_splits)


lemma example_png: "spec_accepts ''plan.png''"
  unfolding spec_accepts_def
  by (rule exI[of _ "''plan''"], rule exI[of _ "''png''"])
     (simp add: lower_def lower_char_def ALLOWED_EXTENSIONS_def)

lemma generate_plan_try_cases:
  assumes "generate_plan_try env req w = (res, w')"
  shows "(\<exists>e. res = Inl e)
     \<or> (res = Inr (jsonify (error_body ''No requirements provided'')) \<and> w' = w)
     \<or> res = Inr (jsonify (error_body ''No response from AI model''))
     \<or> (\<exists>body requirements text.
          req_json req = Inr body \<and> py_get body ''requirements'' (JStr []) = Inr requirements
        \<and> truthy requirements
        \<and> generate_content env (plan_prompt env requirements) None = Inr text \<and> text \<noteq> []
        \<and> parent_exists (dirs w) (''outputs/plan_'' @ strftime (now env (ticks w)) @ ''.json'')
        \<and> (let ts = strftime (now env (ticks w));
                data = plan_data ts requirements text
            in res = Inr (jsonify data)
             \<and> w' = w\<lparr>ticks := Suc (ticks w),
                       files := AList.update (''outputs/plan_'' @ ts @ ''.json'') (json_dumps env data) (files w),
                       calls := calls w @ [(plan_prompt env requirements, None)]\<rparr>))"
  using assms
  unfolding generate_plan_try_def datetime_now_def model_generate_def open_write_def Let_def
  by (auto simp: output_path split: sum.splits option.splits prod.splits if_splits)

lemma analyze_image_try_cases:
  assumes "analyze_image_try env req w = (res, w')"
  shows "(\<exists>e. res = Inl e) \<or> (\<exists>m. res = Inr (jsonify (error_body m)))
     \<or> (\<exists>fs file. req_files req = Inr fs \<and> map_of fs ''image'' = Some file \<and> fs_filename file \<noteq> []
           \<and> spec_accepts (fs_filename file) \<and> analyze_accepted env file w = (res, w')
           \<and> (\<exists>d. res = Inr (jsonify d) \<and> is_success_response (jsonify d)))"
proof -
  consider (a) "analyze_image_try env req w = (Inl (case req_files req of Inl e \<Rightarrow> e), w) \<and> (\<exists>e. req_files req = Inl e)"
    | (b) m where "res = Inr (jsonify (error_body m))"
    | (c) fs f where "req_files req = Inr fs" "map_of fs ''image'' = Some f" "fs_filename f \<noteq> []"
         "spec_accepts (fs_filename f)" "analyze_accepted env f w = (res, w')"
    using assms unfolding analyze_image_try_def
    by (auto simp: allowed_file_spec split: sum.splits option.splits if_splits)
  then show ?thesis
  proof cases
    case a then show ?thesis using assms by auto
  next
    case b then show ?thesis by blast
  next
    case c
    from analyze_accepted_cases[OF c(5)] show ?thesis using c
      by (auto simp: Let_def)
  qed
qed

lemma analyze_image_total:
  "is_error_envelope (fst (analyze_image env req w)) \<or> is_success_response (fst (analyze_image env req w))"
proof -
  obtain res w' where r: "analyze_image_try env req w = (res, w')" by (cases "analyze_image_try env req w")
  from analyze_image_try_cases[OF r] show ?thesis using r
    by (auto simp: analyze_image_def)
qed

lemma generate_plan_total:
  "is_error_envelope (fst (generate_plan env req w)) \<or> is_success_response (fst (generate_plan env req w))"
proof -
  obtain res w' where r: "generate_plan_try env req w = (res, w')" by (cases "generate_plan_try env req w")
  from generate_plan_try_cases[OF r] show ?thesis using r
    by (auto simp: generate_plan_def Let_def)
qed

lemma envelope_not_success: "is_error_envelope r \<Longrightarrow> \<not> is_success_response r"
  by (auto simp: is_error_envelope_def is_success_response_def error_body_def split: response.splits sum.splits json.splits)

lemma analyze_steps_ok_iff:
  "analyze_steps_ok env req w \<longleftrightarrow> is_success_response (fst (analyze_image env req w))"
  unfolding analyze_steps_ok_def analyze_image_def analyze_image_try_def analyze_accepted_def
    datetime_now_def model_generate_def image_open_def open_read_def
    open_write_def process_image_dimensions_def Let_def
  apply (auto simp: upload_path output_path AList.update_conv'
           split: sum.splits option.splits prod.splits if_splits)
  apply (metis old.sum.exhaust)+
  done

lemma plan_steps_ok_iff:
  "plan_steps_ok env req w \<longleftrightarrow> is_success_response (fst (generate_plan env req w))"
  unfolding plan_steps_ok_def generate_plan_def generate_plan_try_def
    datetime_now_def model_generate_def open_write_def Let_def
  by (auto simp: output_path split: sum.splits option.splits prod.splits if_splits)


lemma is_digit_digit_char [simp]: "is_digit (digit_char n)"
  by (simp add: is_digit_def less_eq_char_def digit_char_code)

lemma timestamp_format_strftime [simp]: "timestamp_format (strftime t)"
  by (simp add: timestamp_format_def strftime_def digits2_def digits4_def)

lemma analyze_image_success:
  assumes "is_success_response (fst (analyze_image env req w))"
  obtains fs f wd ht q reply where
    "req_files req = Inr fs" and "map_of fs ''image'' = Some f"
    and "parent_exists (dirs w) (''outputs/analysis_'' @ strftime (now env (ticks w)) @ ''.json'')"
    and "analyze_image env req w =
           (jsonify (analysis_data (strftime (now env (ticks w)))
                       (strftime (now env (ticks w)) @ ''_'' @ secure_filename env (fs_filename f))
                       (JObj [(''width'', JInt wd), (''height'', JInt ht),
                              (''aspect_ratio'', JFloat (py_round q 2))]) reply),
            w\<lparr>ticks := Suc (ticks w),
              files := AList.update (''outputs/analysis_'' @ strftime (now env (ticks w)) @ ''.json'')
                         (json_dumps env
                            (analysis_data (strftime (now env (ticks w)))
                               (strftime (now env (ticks w)) @ ''_'' @ secure_filename env (fs_filename f))
                               (JObj [(''width'', JInt wd), (''height'', JInt ht),
                                      (''aspect_ratio'', JFloat (py_round q 2))]) reply))
                         (AList.update
                            (''uploads/'' @ strftime (now env (ticks w)) @ ''_'' @ secure_filename env (fs_filename f))
                            (fs_stream f) (files w)),
              calls := calls w @ [(analysis_prompt, Some (fs_stream f))]\<rparr>)"
proof -
  obtain res w' where r: "analyze_image_try env req w = (res, w')" by (cases "analyze_image_try env req w")
  from analyze_image_try_cases[OF r] assms r
  obtain fs f d where c: "req_files req = Inr fs" "map_of fs ''image'' = Some f"
      "analyze_accepted env f w = (res, w')" "res = Inr (jsonify d)" "is_success_response (jsonify d)"
    by (auto simp: analyze_image_def)
  from analyze_accepted_cases[OF c(3)] c(4,5)
  obtain wd ht q reply where
    p: "parent_exists (dirs w) (''outputs/analysis_'' @ strftime (now env (ticks w)) @ ''.json'')"
    and e: "res = Inr (jsonify (analysis_data (strftime (now env (ticks w)))
                       (strftime (now env (ticks w)) @ ''_'' @ secure_filename env (fs_filename f))
                       (JObj [(''width'', JInt wd), (''height'', JInt ht),
                              (''aspect_ratio'', JFloat (py_round q 2))]) reply))"
    and w: "w' = w\<lparr>ticks := Suc (ticks w),
              files := AList.update (''outputs/analysis_'' @ strftime (now env (ticks w)) @ ''.json'')
                         (json_dumps env
                            (analysis_data (strftime (now env (ticks w)))
                               (strftime (now env (ticks w)) @ ''_'' @ secure_filename env (fs_filename f))
                               (JObj [(''width'', JInt wd), (''height'', JInt ht),
                                      (''aspect_ratio'', JFloat (py_round q 2))]) reply))
                         (AList.update
                            (''uploads/'' @ strftime (now env (ticks w)) @ ''_'' @ secure_filename env (fs_filename f))
                            (fs_stream f) (files w)),
              calls := calls w @ [(analysis_prompt, Some (fs_stream f))]\<rparr>"
    unfolding Let_def by auto
  have "analyze_image env req w = (jsonify (analysis_data (strftime (now env (ticks w)))
                       (strftime (now env (ticks w)) @ ''_'' @ secure_filename env (fs_filename f))
                       (JObj [(''width'', JInt wd), (''height'', JInt ht),
                              (''aspect_ratio'', JFloat (py_round q 2))]) reply), w')"
    using r e by (simp add: analyze_image_def)
  then show thesis using that[of fs f wd ht q reply] c(1,2) p w by simp
qed

lemma generate_plan_success:
  assumes "is_success_response (fst (generate_plan env req w))"
  obtains body requirements reply where
    "req_json req = Inr body" and "py_get body ''requirements'' (JStr []) = Inr requirements"
    and "parent_exists (dirs w) (''outputs/plan_'' @ strftime (now env (ticks w)) @ ''.json'')"
    and "generate_plan env req w =
           (jsonify (plan_data (strftime (now env (ticks w))) requirements reply),
            w\<lparr>ticks := Suc (ticks w),
              files := AList.update (''outputs/plan_'' @ strftime (now env (ticks w)) @ ''.json'')
                         (json_dumps env (plan_data (strftime (now env (ticks w))) requirements reply)) (files w),
              calls := calls w @ [(plan_prompt env requirements, None)]\<rparr>)"
proof -
  obtain res w' where r: "generate_plan_try env req w = (res, w')" by (cases "generate_plan_try env req w")
  from generate_plan_try_cases[OF r] assms r
  obtain body requirements reply where
    b: "req_json req = Inr body" "py_get body ''requirements'' (JStr []) = Inr requirements"
       "parent_exists (dirs w) (''outputs/plan_'' @ strftime (now env (ticks w)) @ ''.json'')"
    and e: "res = Inr (jsonify (plan_data (strftime (now env (ticks w))) requirements reply))"
    and w: "w' = w\<lparr>ticks := Suc (ticks w),
              files := AList.update (''outputs/plan_'' @ strftime (now env (ticks w)) @ ''.json'')
                         (json_dumps env (plan_data (strftime (now env (ticks w))) requirements reply)) (files w),
              calls := calls w @ [(plan_prompt env requirements, None)]\<rparr>"
    unfolding Let_def by (auto simp: generate_plan_def)
  have "generate_plan env req w = (jsonify (plan_data (strftime (now env (ticks w))) requirements reply), w')"
    using r e by (simp add: generate_plan_def)
  then show thesis using that[of body requirements reply] b w by simp
qed


lemma example_analyze_run:
  "analyze_image example_env example_upload example_world =
     (jsonify example_analysis,
      \<lparr>dirs = [''uploads'', ''outputs''],
       files = [(''outputs/plan_20240114_090000.json'', ''<plan 20240114_090000>''),
                (''outputs/broken.json'', ''{''),
                (''outputs/list.json'', ''[1]''),
                (''outputs/notes.txt'', ''<plan 20240115_103000>''),
                (''uploads/20240115_103000_plan.png'', ''PNG bytes''),
                (''outputs/analysis_20240115_103000.json'', ''<analysis 20240115_103000>'')],
       calls = [(analysis_prompt, Some ''PNG bytes'')],
       ticks = 1\<rparr>)"
  by code_simp





lemma child_name_Some:
  assumes "child_name d p = Some n"
  shows "p = d @ CHR ''/'' # n \<and> n \<noteq> [] \<and> CHR ''/'' \<notin> set n"
proof -
  from assms have t: "take (length d) p = d" and s: "take 1 (drop (length d) p) = ''/''"
    and n: "n = drop (Suc (length d)) p" "n \<noteq> []" "CHR ''/'' \<notin> set n"
    by (auto simp: child_name_def Let_def split: if_splits)
  from s have "drop (length d) p = CHR ''/'' # drop 1 (drop (length d) p)"
    by (cases "drop (length d) p") auto
  then have "drop (length d) p = CHR ''/'' # n" using n(1) by simp
  then have "p = d @ CHR ''/'' # n" using t append_take_drop_id[of "length d" p] by simp
  then show ?thesis using n by simp
qed

lemma child_name_append:
  "n \<noteq> [] \<Longrightarrow> CHR ''/'' \<notin> set n \<Longrightarrow> child_name d (d @ CHR ''/'' # n) = Some n"
  by (simp add: child_name_def Let_def)

lemma output_path_child:
  "n \<noteq> [] \<Longrightarrow> CHR ''/'' \<notin> set n \<Longrightarrow> path_join OUTPUT_FOLDER n = OUTPUT_FOLDER @ CHR ''/'' # n"
  by (cases n) (auto simp: path_join_def OUTPUT_FOLDER_def)

lemma parent_exists_output:
  assumes "parent_exists ds (OUTPUT_FOLDER @ CHR ''/'' # n)" and "CHR ''/'' \<notin> set n"
  shows "OUTPUT_FOLDER \<in> set ds"
proof -
  from assms(1) obtain d m where d: "d \<in> set ds" "child_name d (OUTPUT_FOLDER @ CHR ''/'' # n) = Some m"
    by (auto simp: parent_exists_def list_ex_iff)
  from child_name_Some[OF d(2)] have e: "OUTPUT_FOLDER @ CHR ''/'' # n = d @ CHR ''/'' # m" "CHR ''/'' \<notin> set m"
    by auto
  have "n = m" using last_separator_unique[OF e(1) assms(2) e(2)] .
  then have "d = OUTPUT_FOLDER" using e(1) by simp
  then show ?thesis using d(1) by simp
qed

lemma history_loop_map_filter:
  "history_loop env w names acc =
     acc @ List.map_filter (\<lambda>n. if endswith n ''.json'' then read_entry env w n else None) names"
  by (induction names arbitrary: acc) (auto split: option.splits)

lemma endswith_rev: "endswith s suf \<longleftrightarrow> take (length suf) (rev s) = rev suf"
proof
  assume "endswith s suf"
  then have l: "length suf \<le> length s" and d: "drop (length s - length suf) s = suf"
    by (simp_all add: endswith_def)
  have "take (length suf) (rev s) = rev (drop (length s - length suf) s)" using l by (simp add: rev_drop)
  then show "take (length suf) (rev s) = rev suf" using d by simp
next
  assume a: "take (length suf) (rev s) = rev suf"
  then have "length (take (length suf) (rev s)) = length (rev suf)" by simp
  then have l: "length suf \<le> length s" by simp
  have "rev (drop (length s - length suf) s) = take (length suf) (rev s)" using l by (simp add: rev_drop)
  then have "rev (drop (length s - length suf) s) = rev suf" using a by simp
  then have "drop (length s - length suf) s = suf" by (simp only: rev_is_rev_conv)
  then show "endswith s suf" using l by (simp add: endswith_def)
qed

lemma has_key_map_of: "has_key (JObj kvs) k \<longleftrightarrow> map_of kvs k \<noteq> None"
  by (simp add: has_key_def map_of_eq_None_iff)

lemma read_entry_record:
  assumes "map_of (files w) p = Some c" and "child_name OUTPUT_FOLDER p = Some n"
  shows "(if endswith n ''.json'' then read_entry env w n else None)
           = map_option entry_of (record_of env (p, c))"
proof -
  from child_name_Some[OF assms(2)] have p: "p = OUTPUT_FOLDER @ CHR ''/'' # n" "n \<noteq> []" "CHR ''/'' \<notin> set n"
    by auto
  have j: "path_join OUTPUT_FOLDER n = p" using output_path_child[OF p(2,3)] p(1) by simp
  show ?thesis
    using assms j
    by (auto simp: read_entry_def record_of_def open_read_def entry_of_def timestamp_of_def
          is_analysis_def has_key_map_of endswith_rev Let_def split: option.splits json.splits)
qed

lemma scan_records:
  assumes "\<forall>pc \<in> set xs. map_of (files w) (fst pc) = Some (snd pc)"
  shows "List.map_filter (\<lambda>n. if endswith n ''.json'' then read_entry env w n else None)
           (List.map_filter (\<lambda>pc. child_name OUTPUT_FOLDER (fst pc)) xs)
         = map entry_of (List.map_filter (record_of env) xs)"
  using assms
proof (induction xs)
  case Nil
  then show ?case by simp
next
  case (Cons pc xs)
  obtain p c where pc: "pc = (p, c)" by (cases pc)
  have m: "map_of (files w) p = Some c" using Cons.prems pc by simp
  have ih: "List.map_filter (\<lambda>n. if endswith n ''.json'' then read_entry env w n else None)
           (List.map_filter (\<lambda>pc. child_name OUTPUT_FOLDER (fst pc)) xs)
         = map entry_of (List.map_filter (record_of env) xs)"
    using Cons by simp
  show ?case
  proof (cases "child_name OUTPUT_FOLDER p")
    case None
    then have "record_of env (p, c) = None" by (simp add: record_of_def)
    then show ?thesis using None ih pc by simp
  next
    case (Some n)
    from read_entry_record[OF m Some, of env] show ?thesis using Some ih pc
      by (cases "record_of env (p, c)") auto
  qed
qed

lemma scan_outputs_records:
  assumes "distinct (map fst (files w))" and "OUTPUT_FOLDER \<in> set (dirs w)"
  shows "scan_outputs env w = Inr (map entry_of (stored_records env w))"
proof -
  have "\<forall>pc \<in> set (files w). map_of (files w) (fst pc) = Some (snd pc)"
    using assms(1) by auto
  from scan_records[OF this, of env] show ?thesis using assms(2)
    by (simp add: scan_outputs_def path_exists_def listdir_def stored_records_def history_loop_map_filter)
qed


lemma entry_json_entry_of: "entry_json (entry_of nd) = listed_entry nd"
  by (simp add: entry_json_def entry_of_def listed_entry_def)

lemma json_timestamp_entry_json: "json_timestamp (entry_json e) = timestamp_key e"
  by (cases e) (simp add: json_timestamp_def entry_json_def timestamp_key_def split: json.splits)

lemma json_type_listed_entry:
  "json_type (listed_entry nd) = (if is_analysis nd then ''analysis'' else ''plan'')"
  by (simp add: json_type_def listed_entry_def)

lemma sort_newest_first_strings:
  assumes "list_all (\<lambda>e. is_JStr (fst (snd e))) es"
  shows "sort_newest_first env es = Inr (rev (sort_key timestamp_key (rev es)))"
  using assms by (simp add: sort_newest_first_def)

lemma example_history_run:
  "get_history example_env example_history_world =
     (jsonify (JObj [(''files'',
         JArr [JObj [(''filename'', JStr ''analysis_20240115_103000.json''),
                     (''timestamp'', JStr ''20240115_103000''), (''type'', JStr ''analysis'')],
               JObj [(''filename'', JStr ''plan_20240115_103000.json''),
                     (''timestamp'', JStr ''20240115_103000''), (''type'', JStr ''plan'')],
               JObj [(''filename'', JStr ''plan_20240114_090000.json''),
                     (''timestamp'', JStr ''20240114_090000''), (''type'', JStr ''plan'')]]),
        (''success'', JBool True)]), example_history_world)"
  by code_simp

lemma example_history_records:
  "stored_records example_env example_history_world =
     [(''plan_20240114_090000.json'', example_older_plan),
      (''analysis_20240115_103000.json'', example_analysis),
      (''plan_20240115_103000.json'', example_plan)]"
  by code_simp


subsection \<open>The image dimensions\<close>

lemma py_true_div_pos:
  assumes "0 < a" and "0 < b"
  shows "py_true_div a b =
           (if 2 ^ 1024 \<le> to_double (of_int a / of_int b)
            then Inl (OverflowError ''integer division result too large for a float'')
            else Inr (to_double (of_int a / of_int b)))"
proof -
  have "0 \<le> (of_int a / of_int b :: rat)" using assms by simp
  then have "0 \<le> to_double (of_int a / of_int b)" by (rule to_double_nonneg)
  then show ?thesis using assms by (simp add: py_true_div_def Let_def)
qed

lemma quotient_in_range:
  assumes "0 < a" and "0 < b" and "a \<le> 2 ^ 1023"
  shows "to_double (of_int a / of_int b) < 2 ^ 1024"
proof -
  have p: "0 < (of_int a / of_int b :: rat)" using assms by simp
  have "1 \<le> (of_int b :: rat)" using assms(2) by simp
  then have "(of_int a / of_int b :: rat) \<le> of_int a / 1"
    using assms(1) by (intro divide_left_mono) simp_all
  moreover have "(of_int a :: rat) \<le> of_int (2 ^ 1023)" using assms(3) by (simp only: of_int_le_iff)
  ultimately have "(of_int a / of_int b :: rat) \<le> 2 ^ 1023" by simp
  with p show ?thesis by (rule to_double_in_range)
qed

lemma py_round_two_places:
  "\<exists>k. py_round x 2 = to_double (of_int k / 100) \<and> \<bar>of_int k / 100 - x\<bar> \<le> 1 / 200"
proof -
  let ?k = "round_half_even (x * 10 ^ 2)"
  have "\<bar>of_int ?k - x * 10 ^ 2\<bar> \<le> 1 / 2" by (rule round_half_even_near)
  then have "\<bar>of_int ?k - x * 100\<bar> / 100 \<le> (1 / 2) / 100" by (simp add: divide_right_mono)
  moreover have "\<bar>of_int ?k - x * 100\<bar> / 100 = \<bar>of_int ?k / 100 - x\<bar>"
  proof -
    have e: "of_int ?k / 100 - x = (of_int ?k - x * 100) / 100" by (simp add: diff_divide_distrib)
    show ?thesis by (subst e) simp
  qed
  ultimately have "\<bar>of_int ?k / 100 - x\<bar> \<le> 1 / 200" by simp
  then show ?thesis by (intro exI[of _ ?k]) (simp add: py_round_def)
qed

lemma example_sizes:
  "process_image_dimensions (10, 10) =
     Inr (JObj [(''width'', JInt 10), (''height'', JInt 10), (''aspect_ratio'', JFloat 1)])"
  "to_double (of_int 16 / of_int 9) = 2001599834386887 / 1125899906842624"
  "py_round (2001599834386887 / 1125899906842624) 2 = 8016407336719483 / 4503599627370496"
  "to_double (178 / 100) = 8016407336719483 / 4503599627370496"
  by code_simp+


section \<open>Empty requirements\<close>

text \<open>
  C1. A plan request whose JSON body is an object with \<^verbatim>\<open>requirements\<close> missing or
  equal to the empty string is answered with \<^verbatim>\<open>success: false\<close> and an error
  message; the world after the request is the world before it: no call to the model has
  been made and no file has been written.
\<close>

theorem generate_plan_rejects_empty_requirements:
  assumes "req_json req = Inr (JObj kvs)"
    and "map_of kvs ''requirements'' = None \<or> map_of kvs ''requirements'' = Some (JStr [])"
  shows "generate_plan env req w =
           (JsonResponse 200 (JObj [(''error'', JStr ''No requirements provided''), (''success'', JBool False)]), w)
         \<and> calls (snd (generate_plan env req w)) = calls w
         \<and> files (snd (generate_plan env req w)) = files w"
  using assms by (auto simp: generate_plan_def generate_plan_try_def jsonify_def error_body_def)

theorem generate_plan_rejects_empty_requirements_witness:
  "generate_plan example_env example_empty_request example_world =
     (JsonResponse 200 (JObj [(''error'', JStr ''No requirements provided''), (''success'', JBool False)]),
      example_world)
   \<and> calls (snd (generate_plan example_env example_empty_request example_world)) = []
   \<and> files (snd (generate_plan example_env example_empty_request example_world)) = files example_world"
  using generate_plan_rejects_empty_requirements
          [of example_empty_request "[(''requirements'', JStr [])]" example_env example_world]
  by (simp add: example_empty_request_def example_world_def)

section \<open>Validation of the upload\<close>





section \<open>Failures become error envelopes\<close>

text \<open>
  C6. Whenever a step of the analyze or of the plan handler fails (the request cannot be
  read, the input is missing or refused, a file cannot be written, the image cannot be
  decoded, the model raises or returns no text), the response is the envelope
  \<^verbatim>\<open>{error: <message>, success: false}\<close> with status 200; the response has
  \<^verbatim>\<open>success: true\<close> exactly when no step fails. An exception raised inside the
  handler does not leave it: it becomes the message of the envelope.
\<close>

theorem handler_failures_enveloped:
  "(\<not> analyze_steps_ok env req w \<longrightarrow> is_error_envelope (fst (analyze_image env req w)))
 \<and> (\<not> plan_steps_ok env req w \<longrightarrow> is_error_envelope (fst (generate_plan env req w)))
 \<and> (analyze_steps_ok env req w \<longrightarrow> is_success_response (fst (analyze_image env req w)))
 \<and> (plan_steps_ok env req w \<longrightarrow> is_success_response (fst (generate_plan env req w)))
 \<and> (\<forall>e w'. analyze_image_try env req w = (Inl e, w') \<longrightarrow>
        fst (analyze_image env req w) = JsonResponse 200 (error_body (''Error processing image: '' @ str_exn e)))
 \<and> (\<forall>e w'. generate_plan_try env req w = (Inl e, w') \<longrightarrow>
        fst (generate_plan env req w) = JsonResponse 200 (error_body (''Error generating plan: '' @ str_exn e)))"
  using analyze_image_total[of env req w] generate_plan_total[of env req w]
    analyze_steps_ok_iff[of env req w] plan_steps_ok_iff[of env req w]
  by (auto simp: analyze_image_def generate_plan_def jsonify_def)

theorem handler_failures_enveloped_witness:
  "\<not> analyze_steps_ok example_env example_unnamed_upload example_world
   \<and> is_error_envelope (fst (analyze_image example_env example_unnamed_upload example_world))
   \<and> \<not> plan_steps_ok example_env example_upload example_world
   \<and> is_error_envelope (fst (generate_plan example_env example_upload example_world))
   \<and> analyze_steps_ok example_env example_upload example_world
   \<and> is_success_response (fst (analyze_image example_env example_upload example_world))
   \<and> plan_steps_ok example_env example_plan_request example_world
   \<and> is_success_response (fst (generate_plan example_env example_plan_request example_world))"
proof -
  have a: "\<not> analyze_steps_ok example_env example_unnamed_upload example_world"
    by (simp add: analyze_steps_ok_def example_unnamed_upload_def)
  have b: "\<not> plan_steps_ok example_env example_upload example_world"
    by (simp add: plan_steps_ok_def example_upload_def)
  have c: "analyze_steps_ok example_env example_upload example_world"
    by (simp add: analyze_steps_ok_def example_upload_def allowed_file_spec example_png example_env_def
          example_ratio
          example_world_def upload_path output_path parent_exists_def child_name_def)
  have d: "plan_steps_ok example_env example_plan_request example_world"
    by (simp add: plan_steps_ok_def example_plan_request_def example_env_def
          example_world_def output_path parent_exists_def child_name_def)
  show ?thesis
    using a b c d
      handler_failures_enveloped[of example_env example_unnamed_upload example_world]
      handler_failures_enveloped[of example_env example_upload example_world]
      handler_failures_enveloped[of example_env example_plan_request example_world]
    by blast
qed


section \<open>One timestamp for the upload and its record\<close>

text \<open>
  C7. A successful analyze request reads the clock once. The string of that reading, of
  the shape \<^verbatim>\<open>YYYYMMDD_HHMMSS\<close>, is the prefix of the name under which the upload
  is stored, the \<^verbatim>\<open>timestamp\<close> of the record, and the middle part of the name
  \<^verbatim>\<open>analysis_<timestamp>.json\<close> of the record's file.
\<close>

theorem analyze_single_timestamp:
  assumes "is_success_response (fst (analyze_image env req w))"
  shows "\<exists>fs file data.
           req_files req = Inr fs \<and> map_of fs ''image'' = Some file
         \<and> fst (analyze_image env req w) = jsonify data
         \<and> (let ts = strftime (now env (ticks w));
                 w' = snd (analyze_image env req w)
             in timestamp_format ts
              \<and> ticks w' = Suc (ticks w)
              \<and> map_of (files w') (path_join UPLOAD_FOLDER (ts @ ''_'' @ secure_filename env (fs_filename file)))
                  = Some (fs_stream file)
              \<and> py_get data ''timestamp'' JNull = Inr (JStr ts)
              \<and> py_get data ''filename'' JNull = Inr (JStr (ts @ ''_'' @ secure_filename env (fs_filename file)))
              \<and> map_of (files w') (path_join OUTPUT_FOLDER (''analysis_'' @ ts @ ''.json''))
                  = Some (json_dumps env data))"
proof -
  from assms obtain fs f wd ht q reply where
    h: "req_files req = Inr fs" "map_of fs ''image'' = Some f"
    and r: "analyze_image env req w =
           (jsonify (analysis_data (strftime (now env (ticks w)))
                       (strftime (now env (ticks w)) @ ''_'' @ secure_filename env (fs_filename f))
                       (JObj [(''width'', JInt wd), (''height'', JInt ht),
                              (''aspect_ratio'', JFloat (py_round q 2))]) reply),
            w\<lparr>ticks := Suc (ticks w),
              files := AList.update (''outputs/analysis_'' @ strftime (now env (ticks w)) @ ''.json'')
                         (json_dumps env
                            (analysis_data (strftime (now env (ticks w)))
                               (strftime (now env (ticks w)) @ ''_'' @ secure_filename env (fs_filename f))
                               (JObj [(''width'', JInt wd), (''height'', JInt ht),
                                      (''aspect_ratio'', JFloat (py_round q 2))]) reply))
                         (AList.update
                            (''uploads/'' @ strftime (now env (ticks w)) @ ''_'' @ secure_filename env (fs_filename f))
                            (fs_stream f) (files w)),
              calls := calls w @ [(analysis_prompt, Some (fs_stream f))]\<rparr>)"
    by (rule analyze_image_success)
  show ?thesis
    apply (rule exI[of _ fs], rule exI[of _ f])
    apply (rule exI[of _ "analysis_data (strftime (now env (ticks w)))
                       (strftime (now env (ticks w)) @ ''_'' @ secure_filename env (fs_filename f))
                       (JObj [(''width'', JInt wd), (''height'', JInt ht),
                              (''aspect_ratio'', JFloat (py_round q 2))]) reply"])
    using h r by (simp add: Let_def upload_path output_path AList.update_conv' analysis_data_def)
qed

theorem analyze_single_timestamp_witness:
  "is_success_response (fst (analyze_image example_env example_upload example_world))
   \<and> (\<exists>fs file data.
           req_files example_upload = Inr fs \<and> map_of fs ''image'' = Some file
         \<and> fst (analyze_image example_env example_upload example_world) = jsonify data
         \<and> (let ts = strftime (now example_env (ticks example_world));
                 w' = snd (analyze_image example_env example_upload example_world)
             in timestamp_format ts
              \<and> ticks w' = Suc (ticks example_world)
              \<and> map_of (files w')
                   (path_join UPLOAD_FOLDER (ts @ ''_'' @ secure_filename example_env (fs_filename file)))
                  = Some (fs_stream file)
              \<and> py_get data ''timestamp'' JNull = Inr (JStr ts)
              \<and> py_get data ''filename'' JNull
                  = Inr (JStr (ts @ ''_'' @ secure_filename example_env (fs_filename file)))
              \<and> map_of (files w') (path_join OUTPUT_FOLDER (''analysis_'' @ ts @ ''.json''))
                  = Some (json_dumps example_env data)))"
proof -
  have s: "is_success_response (fst (analyze_image example_env example_upload example_world))"
    by (simp add: example_analyze_run example_analysis_def)
  from analyze_single_timestamp[OF s] s show ?thesis by blast
qed


section \<open>What the operations write\<close>





section \<open>The history listing\<close>

text \<open>
  C3. Let the output directory exist and hold, among files of any kind, N analysis
  records and M plan records whose timestamps are strings (each path names one file).
  Then the history answers with \<^verbatim>\<open>success: true\<close> and a list of JSON entries
  that is, up to order, the list of the entries of these records (file name, the
  record's timestamp, and the type analysis exactly when the record has an
  \<^verbatim>\<open>analysis\<close> field, plan otherwise): N + M entries, N of type analysis and M of
  type plan; and in the returned list the \<^verbatim>\<open>timestamp\<close> strings descend. Files
  whose name does not end in \<^verbatim>\<open>.json\<close> or whose content does not parse to a dict
  are skipped. The world is unchanged.
\<close>

theorem history_lists_all_records:
  assumes "distinct (map fst (files w))" and "OUTPUT_FOLDER \<in> set (dirs w)"
    and "list_all (\<lambda>nd. is_JStr (timestamp_of (snd nd))) (stored_records env w)"
  shows "\<exists>js. get_history env w =
                (jsonify (JObj [(''files'', JArr js), (''success'', JBool True)]), w)
            \<and> mset js = mset (map listed_entry (stored_records env w))
            \<and> length js = length (filter is_analysis (stored_records env w))
                          + length (filter (\<lambda>nd. \<not> is_analysis nd) (stored_records env w))
            \<and> length (filter (\<lambda>j. json_type j = ''analysis'') js)
                = length (filter is_analysis (stored_records env w))
            \<and> length (filter (\<lambda>j. json_type j = ''plan'') js)
                = length (filter (\<lambda>nd. \<not> is_analysis nd) (stored_records env w))
            \<and> sorted_wrt (\<lambda>a b. json_timestamp b \<le> json_timestamp a) js"
proof -
  let ?rs = "stored_records env w"
  let ?es = "rev (sort_key timestamp_key (rev (map entry_of ?rs)))"
  let ?js = "map entry_json ?es"
  have sc: "scan_outputs env w = Inr (map entry_of ?rs)" using assms(1,2) by (rule scan_outputs_records)
  have "list_all (\<lambda>e. is_JStr (fst (snd e))) (map entry_of ?rs)"
    using assms(3) by (simp add: list_all_iff entry_of_def)
  then have "sort_newest_first env (map entry_of ?rs) = Inr ?es"
    by (simp add: sort_newest_first_strings)
  then have g: "get_history env w =
                (jsonify (JObj [(''files'', JArr ?js), (''success'', JBool True)]), w)"
    using sc by (simp add: get_history_def)
  have "mset ?es = mset (map entry_of ?rs)" by simp
  then have "image_mset entry_json (mset ?es) = image_mset entry_json (mset (map entry_of ?rs))"
    by (rule arg_cong)
  then have m: "mset ?js = mset (map listed_entry ?rs)"
    by (simp add: entry_json_entry_of comp_def multiset.map_comp)
  have l: "length ?js = length (filter is_analysis ?rs) + length (filter (\<lambda>nd. \<not> is_analysis nd) ?rs)"
    using sum_length_filter_compl[of is_analysis ?rs] by simp
  have fa: "\<And>P. length (filter P ?js) = length (filter P (map listed_entry ?rs))"
  proof -
    fix P
    have "mset (filter P ?js) = mset (filter P (map listed_entry ?rs))" using m by (simp only: mset_filter)
    then show "length (filter P ?js) = length (filter P (map listed_entry ?rs))" by (rule mset_eq_length)
  qed
  have a: "length (filter (\<lambda>j. json_type j = ''analysis'') ?js) = length (filter is_analysis ?rs)"
    unfolding fa by (simp add: filter_map comp_def json_type_listed_entry)
  have b: "length (filter (\<lambda>j. json_type j = ''plan'') ?js) = length (filter (\<lambda>nd. \<not> is_analysis nd) ?rs)"
    unfolding fa by (simp add: filter_map comp_def json_type_listed_entry)
  have "sorted (map timestamp_key (sort_key timestamp_key (rev (map entry_of ?rs))))"
    by simp
  then have "sorted_wrt (\<lambda>a b. timestamp_key a \<le> timestamp_key b) (rev ?es)"
    by (simp add: sorted_map)
  then have "sorted_wrt (\<lambda>a b. timestamp_key b \<le> timestamp_key a) ?es"
    by (simp only: sorted_wrt_rev)
  then have s: "sorted_wrt (\<lambda>a b. json_timestamp b \<le> json_timestamp a) ?js"
    by (simp add: sorted_wrt_map json_timestamp_entry_json)
  show ?thesis using g m l a b s by blast
qed

theorem history_lists_all_records_witness:
  "distinct (map fst (files example_history_world))
   \<and> OUTPUT_FOLDER \<in> set (dirs example_history_world)
   \<and> list_all (\<lambda>nd. is_JStr (timestamp_of (snd nd))) (stored_records example_env example_history_world)
   \<and> length (filter is_analysis (stored_records example_env example_history_world)) = 1
   \<and> length (filter (\<lambda>nd. \<not> is_analysis nd) (stored_records example_env example_history_world)) = 2
   \<and> get_history example_env example_history_world =
       (jsonify (JObj [(''files'',
           JArr [JObj [(''filename'', JStr ''analysis_20240115_103000.json''),
                       (''timestamp'', JStr ''20240115_103000''), (''type'', JStr ''analysis'')],
                 JObj [(''filename'', JStr ''plan_20240115_103000.json''),
                       (''timestamp'', JStr ''20240115_103000''), (''type'', JStr ''plan'')],
                 JObj [(''filename'', JStr ''plan_20240114_090000.json''),
                       (''timestamp'', JStr ''20240114_090000''), (''type'', JStr ''plan'')]]),
          (''success'', JBool True)]), example_history_world)
   \<and> (\<exists>js. get_history example_env example_history_world =
                (jsonify (JObj [(''files'', JArr js), (''success'', JBool True)]), example_history_world)
            \<and> mset js = mset (map listed_entry (stored_records example_env example_history_world))
            \<and> length js = 1 + 2
            \<and> length (filter (\<lambda>j. json_type j = ''analysis'') js) = 1
            \<and> length (filter (\<lambda>j. json_type j = ''plan'') js) = 2
            \<and> sorted_wrt (\<lambda>a b. json_timestamp b \<le> json_timestamp a) js)"
proof -
  have d: "distinct (map fst (files example_history_world))"
    by (simp add: example_history_world_def)
  have o: "OUTPUT_FOLDER \<in> set (dirs example_history_world)"
    by (simp add: example_history_world_def OUTPUT_FOLDER_def)
  have t: "list_all (\<lambda>nd. is_JStr (timestamp_of (snd nd))) (stored_records example_env example_history_world)"
    by (simp add: example_history_records timestamp_of_def is_JStr_def example_older_plan_def
          example_analysis_def example_plan_def plan_data_def analysis_data_def)
  have n: "length (filter is_analysis (stored_records example_env example_history_world)) = 1"
    by (simp add: example_history_records is_analysis_def example_older_plan_def
          example_analysis_def example_plan_def plan_data_def analysis_data_def)
  have m: "length (filter (\<lambda>nd. \<not> is_analysis nd) (stored_records example_env example_history_world)) = 2"
    by (simp add: example_history_records is_analysis_def example_older_plan_def
          example_analysis_def example_plan_def plan_data_def analysis_data_def)
  from history_lists_all_records[OF d o t] show ?thesis
    using d o t n m example_history_run by simp
qed


section \<open>The aspect ratio of the image\<close>

text \<open>
  C10. For every decoded image with positive width and height, the image information of the
  analysis record carries the width and the height unchanged and, as aspect ratio, the width
  divided by the height rounded to two decimal places: the quotient is Python's true division
  of the two integers (the double nearest to the exact quotient, which exists whenever the
  width is at most \<open>2\<^sup>1\<^sup>0\<^sup>2\<^sup>3\<close>; beyond the range of a double the division raises
  \<^verbatim>\<open>OverflowError\<close>), and the rounded value is the double nearest to a decimal \<open>k / 100\<close>
  that lies within half a hundredth of the quotient. A 10 by 10 image yields the aspect ratio
  1.0. The image information of a successful \<^verbatim>\<open>/analyze\<close> response is
  \<^verbatim>\<open>process_image_dimensions\<close> of the size the upload decodes to.
\<close>

theorem image_info_aspect_ratio:
  assumes "0 < width" and "0 < height"
  shows "process_image_dimensions (width, height) =
           (if 2 ^ 1024 \<le> to_double (of_int width / of_int height)
            then Inl (OverflowError ''integer division result too large for a float'')
            else Inr (JObj [(''width'', JInt width), (''height'', JInt height),
                            (''aspect_ratio'',
                               JFloat (py_round (to_double (of_int width / of_int height)) 2))]))
       \<and> (width \<le> 2 ^ 1023 \<longrightarrow> to_double (of_int width / of_int height) < 2 ^ 1024)
       \<and> (\<exists>k. py_round (to_double (of_int width / of_int height)) 2 = to_double (of_int k / 100)
               \<and> \<bar>of_int k / 100 - to_double (of_int width / of_int height)\<bar> \<le> 1 / 200)
       \<and> process_image_dimensions (10, 10) =
            Inr (JObj [(''width'', JInt 10), (''height'', JInt 10), (''aspect_ratio'', JFloat 1)])
       \<and> (is_success_response (fst (analyze_image env req w)) \<longrightarrow>
            (\<exists>fs file wd ht data info.
                req_files req = Inr fs \<and> map_of fs ''image'' = Some file
              \<and> image_size env (fs_stream file) = Inr (wd, ht)
              \<and> fst (analyze_image env req w) = jsonify data
              \<and> py_get data ''image_info'' JNull = Inr info
              \<and> process_image_dimensions (wd, ht) = Inr info))"
proof -
  have a: "process_image_dimensions (width, height) =
           (if 2 ^ 1024 \<le> to_double (of_int width / of_int height)
            then Inl (OverflowError ''integer division result too large for a float'')
            else Inr (JObj [(''width'', JInt width), (''height'', JInt height),
                            (''aspect_ratio'',
                               JFloat (py_round (to_double (of_int width / of_int height)) 2))]))"
    using py_true_div_pos[OF assms] by (simp add: process_image_dimensions_def)
  have b: "width \<le> 2 ^ 1023 \<longrightarrow> to_double (of_int width / of_int height) < 2 ^ 1024"
    using quotient_in_range[OF assms] by simp
  have c: "\<exists>k. py_round (to_double (of_int width / of_int height)) 2 = to_double (of_int k / 100)
               \<and> \<bar>of_int k / 100 - to_double (of_int width / of_int height)\<bar> \<le> 1 / 200"
    by (rule py_round_two_places)
  have d: "process_image_dimensions (10, 10) =
            Inr (JObj [(''width'', JInt 10), (''height'', JInt 10), (''aspect_ratio'', JFloat 1)])"
    by (rule example_sizes)
  have e: "is_success_response (fst (analyze_image env req w)) \<longrightarrow>
            (\<exists>fs file wd ht data info.
                req_files req = Inr fs \<and> map_of fs ''image'' = Some file
              \<and> image_size env (fs_stream file) = Inr (wd, ht)
              \<and> fst (analyze_image env req w) = jsonify data
              \<and> py_get data ''image_info'' JNull = Inr info
              \<and> process_image_dimensions (wd, ht) = Inr info)"
  proof
    assume s: "is_success_response (fst (analyze_image env req w))"
    obtain res w' where r: "analyze_image_try env req w = (res, w')"
      by (cases "analyze_image_try env req w")
    from analyze_image_try_cases[OF r] s r
    obtain fs f where f: "req_files req = Inr fs" "map_of fs ''image'' = Some f"
      "analyze_accepted env f w = (res, w')" "\<exists>d. res = Inr (jsonify d) \<and> is_success_response (jsonify d)"
      by (auto simp: analyze_image_def)
    from analyze_accepted_cases[OF f(3)] f(4)
    obtain wd ht q reply where
      i: "image_size env (fs_stream f) = Inr (wd, ht)" "py_true_div wd ht = Inr q"
      and e: "res = Inr (jsonify (analysis_data (strftime (now env (ticks w)))
                       (strftime (now env (ticks w)) @ ''_'' @ secure_filename env (fs_filename f))
                       (JObj [(''width'', JInt wd), (''height'', JInt ht),
                              (''aspect_ratio'', JFloat (py_round q 2))]) reply))"
      unfolding Let_def by auto
    let ?info = "JObj [(''width'', JInt wd), (''height'', JInt ht), (''aspect_ratio'', JFloat (py_round q 2))]"
    let ?data = "analysis_data (strftime (now env (ticks w)))
                       (strftime (now env (ticks w)) @ ''_'' @ secure_filename env (fs_filename f)) ?info reply"
    have 1: "fst (analyze_image env req w) = jsonify ?data" using r e by (simp add: analyze_image_def)
    have 2: "py_get ?data ''image_info'' JNull = Inr ?info" by (simp add: analysis_data_def)
    have 3: "process_image_dimensions (wd, ht) = Inr ?info" using i(2) by (simp add: process_image_dimensions_def)
    show "\<exists>fs file wd ht data info.
                req_files req = Inr fs \<and> map_of fs ''image'' = Some file
              \<and> image_size env (fs_stream file) = Inr (wd, ht)
              \<and> fst (analyze_image env req w) = jsonify data
              \<and> py_get data ''image_info'' JNull = Inr info
              \<and> process_image_dimensions (wd, ht) = Inr info"
      using f(1,2) i(1) 1 2 3 by blast
  qed
  show ?thesis using a b c d e by blast
qed

text \<open>
  A 16 by 9 image: the aspect ratio is the double 1.78, not the quotient 16/9; and the example
  upload, a 10 by 10 image.
\<close>

theorem image_info_aspect_ratio_witness:
  "(0::int) < 16 \<and> (0::int) < 9
   \<and> process_image_dimensions (16, 9) =
        Inr (JObj [(''width'', JInt 16), (''height'', JInt 9),
                   (''aspect_ratio'', JFloat (8016407336719483 / 4503599627370496))])
   \<and> to_double (178 / 100) = 8016407336719483 / 4503599627370496
   \<and> (8016407336719483 / 4503599627370496 :: rat) \<noteq> 16 / 9
   \<and> is_success_response (fst (analyze_image example_env example_upload example_world))
   \<and> (\<exists>fs file wd ht data info.
          req_files example_upload = Inr fs \<and> map_of fs ''image'' = Some file
        \<and> image_size example_env (fs_stream file) = Inr (wd, ht)
        \<and> fst (analyze_image example_env example_upload example_world) = jsonify data
        \<and> py_get data ''image_info'' JNull = Inr info
        \<and> process_image_dimensions (wd, ht) = Inr info)"
proof -
  have p: "(0::int) < 16" "(0::int) < 9" by simp_all
  have r: "(16::int) \<le> 2 ^ 1023" by simp
  have s: "is_success_response (fst (analyze_image example_env example_upload example_world))"
    by (simp add: example_analyze_run example_analysis_def)
  have n: "(8016407336719483 / 4503599627370496 :: rat) \<noteq> 16 / 9" by simp
  note t = image_info_aspect_ratio[OF p, of example_env example_upload example_world]
  have "to_double (of_int 16 / of_int 9) < 2 ^ 1024"
    using t[THEN conjunct2, THEN conjunct1] r by (rule mp)
  then have nl: "\<not> 2 ^ 1024 \<le> to_double (of_int 16 / of_int 9)" by (simp only: not_le)
  have a: "process_image_dimensions (16, 9) =
        Inr (JObj [(''width'', JInt 16), (''height'', JInt 9),
                   (''aspect_ratio'', JFloat (8016407336719483 / 4503599627370496))])"
    using t[THEN conjunct1] nl by (simp only: if_False example_sizes)
  have e: "\<exists>fs file wd ht data info.
          req_files example_upload = Inr fs \<and> map_of fs ''image'' = Some file
        \<and> image_size example_env (fs_stream file) = Inr (wd, ht)
        \<and> fst (analyze_image example_env example_upload example_world) = jsonify data
        \<and> py_get data ''image_info'' JNull = Inr info
        \<and> process_image_dimensions (wd, ht) = Inr info"
    using t[THEN conjunct2, THEN conjunct2, THEN conjunct2, THEN conjunct2] s by (rule mp)
  show ?thesis using p a example_sizes(4) n s e by (intro conjI)
qed

end
